theory Spec2Isabelle
  imports Main "HOL-Library.Sublist" "HOL-Library.AList"
begin

section \<open>Python values\<close>

text \<open>
  A Python \<^verbatim>\<open>str\<close> is a sequence of Unicode code points; it is modelled as a list of
  naturals, so that \<^verbatim>\<open>kw in text\<close> is the contiguous-sublist test on code points.
  ASCII text of the source is written with \<open>asc\<close>, everything else as code points.
\<close>

type_synonym pystr = "nat list"

definition asc :: "string \<Rightarrow> pystr" where
  "asc s = map of_char s"

text \<open>\<^verbatim>\<open>kw in text\<close> on two strings.\<close>

definition str_contains :: "pystr \<Rightarrow> pystr \<Rightarrow> bool" where
  "str_contains kw text = sublist kw text"

text \<open>
  Values that \<^verbatim>\<open>json.loads\<close> can return. A float is kept only as far as the code looks at
  it (its truth value): a finite float is \<open>m * 2 ^ e\<close>.
\<close>

datatype pyfloat = Finite int int | NaN | Infinity bool

datatype json =
    JNull
  | JBool bool
  | JInt int
  | JFloat pyfloat
  | JStr pystr
  | JArr "json list"
  | JObj "(pystr \<times> json) list"

text \<open>
  Values in general: what a skill returns and what a context holds. \<open>PObj c attrs\<close> is an
  object of class \<open>c\<close> with the given attributes (a retrieved document, an image).
\<close>

datatype pyval =
    PNone
  | PBool bool
  | PInt int
  | PFloat pyfloat
  | PStr pystr
  | PList "pyval list"
  | PDict "(pystr \<times> pyval) list"
  | PObj pystr "(pystr \<times> pyval) list"

fun to_py :: "json \<Rightarrow> pyval" where
  "to_py JNull = PNone"
| "to_py (JBool b) = PBool b"
| "to_py (JInt i) = PInt i"
| "to_py (JFloat f) = PFloat f"
| "to_py (JStr s) = PStr s"
| "to_py (JArr xs) = PList (map to_py xs)"
| "to_py (JObj kvs) = PDict (map (\<lambda>(k, v). (k, to_py v)) kvs)"

text \<open>
  An exception of class \<^verbatim>\<open>Exception\<close>: its class and its message (\<^verbatim>\<open>str(e)\<close>).
\<close>

datatype exn_kind =
    ValueError | TypeError | AttributeError | JSONDecodeError | StopIteration
  | UnicodeEncodeError | OtherError

datatype exn = Exn exn_kind pystr

fun exn_str :: "exn \<Rightarrow> pystr" where
  "exn_str (Exn k msg) = msg"

fun exn_kind_of :: "exn \<Rightarrow> exn_kind" where
  "exn_kind_of (Exn k msg) = k"

text \<open>
  What a \<^verbatim>\<open>raise\<close> can throw: an \<^verbatim>\<open>Exception\<close>, or an exception of a class outside
  \<^verbatim>\<open>Exception\<close>, which \<^verbatim>\<open>except Exception\<close> does not catch.
\<close>

datatype exit_kind = KeyboardInterrupt | SystemExit | GeneratorExit

datatype raised = Exc exn | Exit exit_kind pystr

section \<open>Text constants of the source\<close>

definition routing_prompt_head :: pystr where
  "routing_prompt_head =
     [45817, 49888, 51008, 32, 50504, 51204, 32, 47784, 45768, 53552, 47553, 32] @
     [49884, 49828, 53596, 51032, 32, 51089, 50629, 32, 48516, 48176, 32, 44288] @
     [47532, 51088, 51077, 45768, 45796, 46, 10, 10, 49324, 50857, 51088, 32] @
     [50836, 52397, 58, 32]"

definition routing_prompt_tail :: pystr where
  "routing_prompt_tail =
     [10, 10, 49324, 50857, 32, 44032, 45733, 54620] @ asc '' Skills:'' @ [10] @
     asc ''1. data_analytics - '' @ [45936, 51060, 53552, 32, 48516, 49437, 32, 51204, 45812, 10] @
     asc ''   - '' @ [53685, 44228, 32, 44228, 49328, 10] @ asc ''   - '' @
     [52628, 49464, 32, 48516, 49437, 10] @ asc ''   - '' @
     [50948, 54744, 46020, 32, 54217, 44032, 10] @ asc ''   - '' @
     [52852, 47700, 46972, 48324, 32, 48516, 49437, 10, 32, 32, 32, 50696] @
     [58, 32, 34, 53685, 44228, 32, 48516, 49437, 54644, 51480, 34, 44] @
     [32, 34, 44032, 51109, 32, 50948, 54744, 54620, 32, 52852, 47700, 46972] @
     [45716, 63, 34, 44, 32, 34, 51613, 44048, 47456, 32, 44228, 49328] @ [34, 10, 10] @
     asc ''2. report_generation - '' @
     [48372, 44256, 49436, 32, 48143, 32, 45824, 51025, 32, 48169, 50504, 32] @
     [51089, 49457, 10] @ asc ''   - '' @
     [51068, 51068, 47, 51452, 44036, 32, 48372, 44256, 49436, 32, 49373, 49457] @ [10] @
     asc ''   - '' @ [51312, 52824, 32, 48169, 50504, 32, 51228, 44277, 10] @ asc ''   - '' @
     [49324, 44256, 32, 48372, 44256, 49436, 32, 51089, 49457, 10, 32, 32] @
     [32, 50696, 58, 32, 34, 48372, 44256, 49436, 32, 51089, 49457, 54644] @
     [51480, 34, 44, 32, 34, 45824, 51025, 32, 48169, 50504, 32, 50508] @
     [47140, 51480, 34, 44, 32, 34, 51312, 52824, 32, 49324, 54637, 51008] @ [63, 34, 10, 10] @
     asc ''3. knowledge_management - '' @
     [51648, 49885, 32, 44160, 49353, 32, 48143, 32, 51656, 47928, 32, 45813] @ [48320, 10] @
     asc ''   - '' @ [50504, 51204, 32, 44508, 51221, 32, 44160, 49353, 10] @ asc ''   - '' @
     [51312, 52824, 32, 44032, 51060, 46300, 32, 51312, 54924, 10] @ asc ''   - '' @
     [51656, 47928, 32, 45813, 48320] @ asc '' (RAG)'' @
     [10, 32, 32, 32, 50696, 58, 32, 34, 50504, 51204, 47784, 32] @
     [52265, 50857, 32, 44508, 51221, 51008, 63, 34, 44, 32, 34, 45209] @
     [49345, 32, 49324, 44256, 32, 45824, 51025, 32, 48169, 48277, 51008, 63] @
     [34, 44, 32, 34, 48277, 44508, 32, 50508, 47140, 51480, 34, 10] @ [10] @
     asc ''4. vision_analysis - '' @
     [51060, 48120, 51648, 32, 48516, 49437, 32, 51204, 45812, 10] @ asc ''   - '' @
     [50504, 51204, 32, 50948, 48152, 32, 49324, 54637, 32, 44048, 51648, 10] @ asc ''   - PPE '' @
     [52265, 50857, 32, 54869, 51064, 10] @ asc ''   - '' @
     [51089, 50629, 51109, 32, 50504, 51204, 32, 54217, 44032, 10, 32, 32] @
     [32, 50696, 58, 32, 34, 51060, 32, 51060, 48120, 51648, 32, 48516] @
     [49437, 54644, 51480, 34, 44, 32, 34, 50504, 51204, 47784, 32, 52265] @
     [50857, 32, 54869, 51064, 34, 10, 32, 32, 32, 51452, 51032, 58] @
     [32, 51060, 48120, 51648, 44032, 32, 51228, 44277, 46108, 32, 44221, 50864] @
     [50640, 47564, 32, 49324, 50857, 10, 10, 49324, 50857, 51088, 32, 50836] @
     [52397, 51012, 32, 48516, 49437, 54616, 50668, 32, 50612, 46500] @ asc '' Skill'' @
     [51012, 32, 49324, 50857, 54624, 51648, 32, 44208, 51221, 54616, 49464, 50836] @
     [46, 10, 10, 48373, 51105, 54620, 32, 50836, 52397, 51032, 32, 44221] @
     [50864, 32, 50668, 47084] @ asc '' Skills'' @
     [47484, 32, 49692, 52264, 51201, 51004, 47196, 32, 49324, 50857, 54624, 32] @
     [49688, 32, 51080, 49845, 45768, 45796, 58, 10, 45, 32, 50696, 58] @
     [32, 34, 44032, 51109, 32, 50948, 54744, 54620, 32, 44396, 50669, 51032] @
     [32, 45824, 51025, 32, 48169, 50504, 34, 32, 8594] @ asc '' data_analytics ('' @
     [50948, 54744, 32, 44396, 50669, 32, 52286, 44592, 41, 32, 8594] @
     asc '' report_generation ('' @
     [45824, 51025, 32, 48169, 50504, 41, 10, 45, 32, 50696, 58, 32] @
     [34, 50724, 45720, 32, 51060, 48292, 53944, 32, 48372, 44256, 49436, 34] @ [32, 8594] @
     asc '' data_analytics ('' @ [53685, 44228, 41, 32, 8594] @ asc '' report_generation ('' @
     [48372, 44256, 49436, 32, 49373, 49457, 41, 10, 10, 51025, 45813, 32] @ [54805, 49885] @
     asc '' (JSON'' @ [47564, 41, 58, 10, 123, 10, 32, 32, 34] @ asc ''skill'' @ [34, 58, 32, 34] @
     asc ''data_analytics'' @ [34, 32, 124, 32, 34] @ asc ''report_generation'' @
     [34, 32, 124, 32, 34] @ asc ''knowledge_management'' @ [34, 32, 124, 32, 34] @
     asc ''vision_analysis'' @ [34, 44, 10, 32, 32, 34] @ asc ''task'' @
     [34, 58, 32, 34, 44396, 52404, 51201, 51064, 32, 51089, 50629, 32] @
     [49444, 47749, 34, 44, 10, 32, 32, 34] @ asc ''reason'' @
     [34, 58, 32, 34, 49440, 53469, 32, 51060, 50976, 34, 44, 10] @ [32, 32, 34] @
     asc ''multi_step'' @ [34] @ asc '': false'' @
     [10, 125, 10, 10, 46608, 45716, 32, 47680, 54000, 49828, 53597, 51064] @
     [32, 44221, 50864, 58, 10, 123, 10, 32, 32, 34] @ asc ''multi_step'' @ [34] @
     asc '': true,'' @ [10, 32, 32, 34] @ asc ''steps'' @ [34, 58, 32, 91, 10] @ asc ''    {'' @
     [34] @ asc ''skill'' @ [34, 58, 32, 34] @ asc ''data_analytics'' @ [34, 44, 32, 34] @
     asc ''task'' @ [34, 58, 32, 34, 44396, 52404, 51201, 51064, 32, 51089, 50629, 34] @
     [125, 44, 10] @ asc ''    {'' @ [34] @ asc ''skill'' @ [34, 58, 32, 34] @
     asc ''report_generation'' @ [34, 44, 32, 34] @ asc ''task'' @
     [34, 58, 32, 34, 44396, 52404, 51201, 51064, 32, 51089, 50629, 34] @ [125, 10] @
     asc ''  ],'' @ [10, 32, 32, 34] @ asc ''reason'' @
     [34, 58, 32, 34, 47680, 54000, 49828, 53597, 32, 51060, 50976, 34] @ [10, 125]"

definition v1_routing_prompt_head :: pystr where
  "v1_routing_prompt_head =
     [45817, 49888, 51008, 32, 50504, 51204, 32, 47784, 45768, 53552, 47553, 32] @
     [49884, 49828, 53596, 51032, 32, 51089, 50629, 32, 48516, 48176, 32, 44288] @
     [47532, 51088, 51077, 45768, 45796, 46, 10, 10] @ asc ''                        '' @
     [49324, 50857, 51088, 32, 50836, 52397, 58, 32]"

definition v1_routing_prompt_tail :: pystr where
  "v1_routing_prompt_tail =
     [10] @ asc ''                        '' @ [10] @ asc ''                        '' @
     [49324, 50857, 32, 44032, 45733, 54620, 32, 50640, 51060, 51204, 53944, 58] @ [10] @
     asc ''                        1. query - '' @
     [45936, 51060, 53552, 32, 51312, 54924, 32, 51204, 45812, 10] @
     asc ''                           - '' @
     [53945, 51221, 32, 52852, 47700, 46972, 51032, 32, 51060, 48292, 53944, 32] @
     [51312, 54924, 10] @ asc ''                           - '' @
     [53945, 51221, 32, 45216, 51676, 51032, 32, 51060, 48292, 53944, 32, 51312] @ [54924, 10] @
     asc ''                           - '' @
     [53945, 51221, 32, 53440, 51077, 51032, 32, 51060, 48292, 53944, 32, 51312] @ [54924, 10] @
     asc ''                           - '' @
     [48120, 54644, 44208, 32, 51060, 48292, 53944, 32, 51312, 54924, 10] @
     asc ''                           - '' @
     [52852, 47700, 46972, 32, 47785, 47197, 32, 51312, 54924, 10] @
     asc ''                           '' @ [50696, 58, 32, 34] @ asc ''CAM-001'' @
     [51032, 32, 51060, 48292, 53944, 32, 48372, 50668, 51480, 34, 44, 32] @
     [34, 50724, 45720, 32, 48156, 49373, 54620, 32, 51060, 48292, 53944, 45716] @ [63, 34, 10] @
     asc ''                        '' @ [10] @ asc ''                        2. analysis - '' @
     [45936, 51060, 53552, 32, 48516, 49437, 32, 51204, 45812, 10] @
     asc ''                           - '' @ [53685, 44228, 32, 44228, 49328, 10] @
     asc ''                           - '' @ [52628, 49464, 32, 48516, 49437, 10] @
     asc ''                           - '' @ [50948, 54744, 46020, 32, 54217, 44032, 10] @
     asc ''                           - '' @
     [44032, 51109, 32, 47928, 51228, 44032, 32, 47566, 51008, 32, 44396, 50669] @
     [32, 52286, 44592, 10] @ asc ''                           '' @
     [50696, 58, 32, 34, 53685, 44228, 32, 48516, 49437, 54644, 51480, 34] @
     [44, 32, 34, 44032, 51109, 32, 50948, 54744, 54620, 32, 52852, 47700] @
     [46972, 45716, 63, 34, 44, 32, 34, 51613, 44048, 47456, 32, 44228] @ [49328, 34, 10] @
     asc ''                        '' @ [10] @ asc ''                        3. report - '' @
     [48372, 44256, 49436, 32, 48143, 32, 45824, 51025, 32, 48169, 50504, 32] @
     [51089, 49457, 10] @ asc ''                           - '' @
     [51068, 51068, 32, 48372, 44256, 49436, 32, 49373, 49457, 10] @
     asc ''                           - '' @
     [51312, 52824, 32, 48169, 50504, 32, 51228, 44277, 10] @
     asc ''                           - '' @
     [50504, 51204, 32, 44508, 51221, 32, 50504, 45236, 32, 40, 45236, 48512] @
     [32, 51648, 49885, 32, 48288, 51060, 49828, 32, 54876, 50857, 41, 10] @
     asc ''                           - '' @
     [50808, 48512, 32, 51221, 48372, 32, 50836, 52397, 32, 49884, 50640, 46020] @
     [32, 45236, 48512, 32, 51648, 49885, 51004, 47196, 32, 45813, 48320, 10] @
     asc ''                           '' @
     [50696, 58, 32, 34, 48372, 44256, 49436, 32, 51089, 49457, 54644, 51480] @
     [34, 44, 32, 34, 45824, 51025, 32, 48169, 50504, 32, 50508, 47140] @
     [51480, 34, 44, 32, 34, 51312, 52824, 32, 49324, 54637, 51008, 63] @ [34, 10] @
     asc ''                           '' @
     [50696, 58, 32, 34, 49328, 50629, 50504, 51204, 48372, 44148, 48277, 32] @
     [45236, 50857, 34, 44, 32, 34, 50504, 51204, 32, 44508, 51221, 32] @ [50504, 45236, 34, 10] @
     asc ''                        '' @ [10] @ asc ''                        4. multimodal - '' @
     [51060, 48120, 51648, 32, 48516, 49437, 32, 51204, 45812] @ asc '' (NEW!)'' @ [10] @
     asc ''                           - '' @
     [51060, 48120, 51648, 50640, 49436, 32, 50504, 51204, 32, 50948, 48152, 32] @
     [49324, 54637, 32, 44048, 51648, 10] @ asc ''                           - PPE('' @
     [44060, 51064, 32, 48372, 54840, 32, 51109, 48708, 41, 32, 52265, 50857] @
     [32, 50668, 48512, 32, 54869, 51064, 10] @ asc ''                           - '' @
     [51089, 50629, 51109, 32, 50504, 51204, 32, 49345, 53468, 32, 54217, 44032] @ [10] @
     asc ''                           - '' @
     [51060, 48120, 51648, 32, 44592, 48152, 32, 51656, 51032, 51025, 45813, 10] @
     asc ''                           - CCTV '' @ [49828, 45253, 49399, 32, 48516, 49437, 10] @
     asc ''                           '' @
     [50696, 58, 32, 34, 51060, 32, 51060, 48120, 51648, 32, 48516, 49437] @
     [54644, 51480, 34, 44, 32, 34, 50504, 51204, 47784, 32, 52265, 50857] @
     [32, 54869, 51064, 34, 44, 32, 34, 51089, 50629, 51109, 32, 50504] @
     [51204, 32, 49345, 53468, 45716, 63, 34, 10] @ asc ''                           '' @
     [51452, 51032, 58, 32, 51060, 48120, 51648, 44032, 32, 51228, 44277, 46108] @
     [32, 44221, 50864, 50640, 47564, 32, 49324, 50857, 10] @ asc ''                        '' @
     [10] @ asc ''                        '' @
     [51473, 50836, 58, 32, 50808, 48512, 32, 50937, 32, 44160, 49353, 32] @
     [44592, 45733, 51008, 32, 54788, 51116, 32, 49324, 50857, 32, 48520, 44032] @
     [45733, 54633, 45768, 45796, 46, 10] @ asc ''                        '' @
     [52572, 49888, 32, 51221, 48372, 45208, 32, 50808, 48512, 32, 44508, 51221] @
     [32, 44288, 47144, 32, 51656, 47928, 51008] @ asc '' report '' @
     [50640, 51060, 51204, 53944, 44032, 32, 45236, 48512, 32, 51648, 49885, 32] @
     [48288, 51060, 49828, 47484, 32, 54876, 50857, 54616, 50668, 32, 45813, 48320] @
     [54633, 45768, 45796, 46, 10] @ asc ''                        '' @ [10] @
     asc ''                        '' @
     [49324, 50857, 51088, 32, 50836, 52397, 51012, 32, 48516, 49437, 54616, 50668] @
     [32, 50612, 46500, 32, 50640, 51060, 51204, 53944, 47484, 32, 49324, 50857] @
     [54624, 51648, 32, 44208, 51221, 54616, 49464, 50836, 46, 10] @
     asc ''                        '' @ [10] @ asc ''                        '' @
     [48373, 51105, 54620, 32, 50836, 52397, 51032, 32, 44221, 50864, 32, 50668] @
     [47084, 32, 50640, 51060, 51204, 53944, 47484, 32, 49692, 52264, 51201, 51004] @
     [47196, 32, 49324, 50857, 54624, 32, 49688, 32, 51080, 49845, 45768, 45796] @ [58, 10] @
     asc ''                        - '' @
     [50696, 58, 32, 34, 44032, 51109, 32, 50948, 54744, 54620, 32, 44396] @
     [50669, 51032, 32, 45824, 51025, 32, 48169, 50504, 34, 32, 8594] @ asc '' analysis ('' @
     [50948, 54744, 32, 44396, 50669, 32, 52286, 44592, 41, 32, 8594] @ asc '' report ('' @
     [45824, 51025, 32, 48169, 50504, 41, 10] @ asc ''                        - '' @
     [50696, 58, 32, 34, 50724, 45720, 32, 51060, 48292, 53944, 32, 48372] @
     [44256, 49436, 34, 32, 8594] @ asc '' query ('' @
     [45936, 51060, 53552, 32, 51312, 54924, 41, 32, 8594] @ asc '' report ('' @
     [48372, 44256, 49436, 32, 49373, 49457, 41, 10] @ asc ''                        - '' @
     [50696, 58, 32, 34, 51060, 32, 51060, 48120, 51648, 51032, 32, 50948] @
     [54744, 32, 50836, 49548, 50752, 32, 45824, 51025, 32, 48169, 50504, 34] @ [32, 8594] @
     asc '' multimodal ('' @ [51060, 48120, 51648, 32, 48516, 49437, 41, 32, 8594] @
     asc '' report ('' @ [45824, 51025, 32, 48169, 50504, 41, 10] @
     asc ''                        '' @ [10] @ asc ''                        '' @
     [51025, 45813, 32, 54805, 49885] @ asc '' (JSON'' @ [47564, 41, 58, 10] @
     asc ''                        {'' @ [10] @ asc ''                          '' @ [34] @
     asc ''agent'' @ [34, 58, 32, 34] @ asc ''query'' @ [34, 32, 124, 32, 34] @ asc ''analysis'' @
     [34, 32, 124, 32, 34] @ asc ''report'' @ [34, 32, 124, 32, 34] @ asc ''multimodal'' @
     [34, 44, 10] @ asc ''                          '' @ [34] @ asc ''reason'' @
     [34, 58, 32, 34, 49440, 53469, 32, 51060, 50976, 34, 44, 10] @
     asc ''                          '' @ [34] @ asc ''multi_step'' @ [34] @ asc '': false,'' @
     [10] @ asc ''                          '' @ [34] @ asc ''steps'' @ [34] @ asc '': []'' @
     [10] @ asc ''                        }'' @ [10] @ asc ''                        '' @ [10] @
     asc ''                        '' @
     [46608, 45716, 32, 47680, 54000, 49828, 53597, 51064, 32, 44221, 50864, 58] @ [10] @
     asc ''                        {'' @ [10] @ asc ''                          '' @ [34] @
     asc ''multi_step'' @ [34] @ asc '': true,'' @ [10] @ asc ''                          '' @
     [34] @ asc ''steps'' @ [34, 58, 32, 91, 10] @ asc ''                            {'' @ [34] @
     asc ''agent'' @ [34, 58, 32, 34] @ asc ''query'' @ [34, 44, 32, 34] @ asc ''task'' @
     [34, 58, 32, 34, 44396, 52404, 51201, 51064, 32, 51089, 50629, 34] @ [125, 44, 10] @
     asc ''                            {'' @ [34] @ asc ''agent'' @ [34, 58, 32, 34] @
     asc ''report'' @ [34, 44, 32, 34] @ asc ''task'' @
     [34, 58, 32, 34, 44396, 52404, 51201, 51064, 32, 51089, 50629, 34] @ [125, 10] @
     asc ''                          ],'' @ [10] @ asc ''                          '' @ [34] @
     asc ''reason'' @ [34, 58, 32, 34, 47680, 54000, 49828, 53597, 32, 51060, 50976, 34] @ [10] @
     asc ''                        }''"

definition synthesis_prompt_head :: pystr where
  "synthesis_prompt_head =
     [45796, 51020, 51008, 32, 49324, 50857, 51088, 32, 50836, 52397, 51012, 32] @
     [52376, 47532, 54620, 32, 50668, 47084, 32, 45800, 44228, 51032, 32, 44208] @
     [44284, 51077, 45768, 45796, 46, 10, 10] @ asc ''                        '' @
     [49324, 50857, 51088, 32, 50896, 47000, 32, 50836, 52397, 58, 32]"

definition synthesis_prompt_mid :: pystr where
  "synthesis_prompt_mid =
     [10] @ asc ''                        '' @ [10] @ asc ''                        '' @
     [45800, 44228, 48324, 32, 44208, 44284, 58, 10] @ asc ''                        ''"

definition synthesis_prompt_tail :: pystr where
  "synthesis_prompt_tail =
     [10, 10] @ asc ''                            '' @
     [50948, 32, 47784, 46304, 32, 45800, 44228, 51032, 32, 44208, 44284, 47484] @
     [32, 51333, 54633, 54616, 50668, 32, 49324, 50857, 51088, 51032, 32, 50896] @
     [47000, 32, 50836, 52397, 50640, 32, 45824, 54620, 32, 52572, 51333, 32] @
     [45813, 48320, 51012, 32, 51089, 49457, 54616, 49464, 50836, 46, 10] @
     asc ''                            - '' @
     [47784, 46304, 32, 44288, 47144, 32, 51221, 48372, 47484, 32, 54252, 54632] @
     [54616, 49464, 50836, 10] @ asc ''                            - '' @
     [47749, 54869, 54616, 44256, 32, 44396, 51312, 54868, 46108, 32, 54805, 53468] @
     [47196, 32, 51228, 49884, 54616, 49464, 50836, 10] @ asc ''                            - '' @
     [54620, 44397, 50612, 47196, 32, 51089, 49457, 54616, 49464, 50836, 10] @
     asc ''                            ''"

definition synthesis_step_0 :: pystr where
  "synthesis_step_0 =
     [10, 91]"

definition synthesis_step_1 :: pystr where
  "synthesis_step_1 =
     [45800, 44228, 32, 45, 32]"

definition synthesis_step_2 :: pystr where
  "synthesis_step_2 =
     [93, 10, 51089, 50629, 58, 32]"

definition synthesis_step_3 :: pystr where
  "synthesis_step_3 =
     [10, 44208, 44284, 58, 32]"

definition synthesis_step_4 :: pystr where
  "synthesis_step_4 =
     [10]"

definition stats_text_0 :: pystr where
  "stats_text_0 =
     [10, 128202, 32, 53685, 44228, 32, 48516, 49437, 32, 44208, 44284, 10] @
     [10, 44592, 44036, 58, 32]"

definition stats_text_1 :: pystr where
  "stats_text_1 =
     [32, 126, 32]"

definition stats_text_2 :: pystr where
  "stats_text_2 =
     [10, 10, 52509, 32, 51060, 48292, 53944, 58, 32]"

definition stats_text_3 :: pystr where
  "stats_text_3 =
     [44148, 10, 45, 32, 54644, 44208, 58, 32]"

definition stats_text_4 :: pystr where
  "stats_text_4 =
     [44148, 10, 45, 32, 48120, 54644, 44208, 58, 32]"

definition stats_text_5 :: pystr where
  "stats_text_5 =
     [44148, 10, 45, 32, 54644, 44208, 47456, 58, 32]"

definition stats_text_6 :: pystr where
  "stats_text_6 =
     [37, 10, 10, 51060, 48292, 53944, 32, 53440, 51077, 48324, 58, 10]"

definition stats_text_7 :: pystr where
  "stats_text_7 =
     [10, 10, 49900, 44033, 46020, 48324, 58, 10]"

definition stats_text_8 :: pystr where
  "stats_text_8 =
     [10]"

definition msg_request_error :: pystr where
  "msg_request_error =
     [50836, 52397, 32, 52376, 47532, 32, 51473, 32, 50724, 47448, 44032, 32] @
     [48156, 49373, 54664, 49845, 45768, 45796, 58, 32]"

definition msg_skill_error :: pystr where
  "msg_skill_error =
     asc '' Skill '' @ [49892, 54665, 32, 51473, 32, 50724, 47448, 58, 32]"

definition reason_parse_failed :: pystr where
  "reason_parse_failed =
     [54028, 49905, 32, 49892, 54056, 44, 32, 44592, 48376, 44050, 32, 49324] @ [50857]"

definition reason_error_prefix :: pystr where
  "reason_error_prefix =
     [50724, 47448, 32, 48156, 49373, 58, 32]"

definition previous_result_sep :: pystr where
  "previous_result_sep =
     [10, 10, 51060, 51204, 32, 45800, 44228, 32, 44208, 44284, 58, 10]"

definition msg_no_result :: pystr where
  "msg_no_result =
     [44208, 44284, 44032, 32, 50630, 49845, 45768, 45796, 46]"

definition knowledge_context_prefix :: pystr where
  "knowledge_context_prefix =
     [49324, 50857, 51088, 32, 51656, 47928, 58, 32]"

definition format_dict_prefix :: pystr where
  "format_dict_prefix =
     asc ''  - ''"

definition format_dict_suffix :: pystr where
  "format_dict_suffix =
     [44148]"

definition msg_skill_not_found :: pystr where
  "msg_skill_not_found =
     asc ''Skill not found: ''"

definition msg_invalid_input_0 :: pystr where
  "msg_invalid_input_0 =
     asc ''Invalid input for skill '' @ [39]"

definition msg_invalid_input_1 :: pystr where
  "msg_invalid_input_1 =
     [39] @ asc '' task '' @ [39]"

definition reason_search_replaced :: pystr where
  "reason_search_replaced =
     [50896, 47000] @ asc '' search '' @ [49440, 53469, 46120, 32, 8594] @ asc '' report'' @
     [47196, 32, 45824, 52404, 32, 40, 50937, 32, 44160, 49353, 32, 48708] @
     [54876, 49457, 54868, 41, 46, 32]"

definition task_internal_kb :: pystr where
  "task_internal_kb =
     [45236, 48512, 32, 51648, 49885, 32, 48288, 51060, 49828, 47196, 32, 45813] @
     [48320, 58, 32]"

definition msg_no_images :: pystr where
  "msg_no_images =
     [51060, 48120, 51648, 44032, 32, 51228, 44277, 46104, 51648, 32, 50506, 50520] @
     [49845, 45768, 45796, 46]"

definition msg_needs_image :: pystr where
  "msg_needs_image =
     [47680, 54000, 47784, 45804, 32, 50640, 51060, 51204, 53944, 45716, 32, 51060] @
     [48120, 51648, 44032, 32, 54596, 50836, 54633, 45768, 45796, 46]"

definition msg_unknown_agent :: pystr where
  "msg_unknown_agent =
     [50508, 32, 49688, 32, 50630, 45716, 32, 50640, 51060, 51204, 53944, 58] @ [32]"

definition msg_agent_no_response :: pystr where
  "msg_agent_no_response =
     [32, 50640, 51060, 51204, 53944, 44032, 32, 51025, 45813, 51012, 32, 49373] @
     [49457, 54616, 51648, 32, 47803, 54664, 49845, 45768, 45796, 46, 32, 45796] @
     [49884, 32, 49884, 46020, 54644, 51452, 49464, 50836, 46]"

definition msg_agent_error :: pystr where
  "msg_agent_error =
     [32, 50640, 51060, 51204, 53944, 32, 49892, 54665, 32, 51473, 32, 50724] @ [47448, 58, 32]"

definition line_request :: pystr where
  "line_request =
     [49324, 50857, 51088, 32, 50836, 52397, 58, 32]"

definition line_llm_routing :: pystr where
  "line_llm_routing =
     asc ''[LLM '' @ [46972, 50864, 54021, 32, 49884, 51089, 93]"

definition line_routing_plan :: pystr where
  "line_routing_plan =
     [91, 46972, 50864, 54021, 32, 44228, 54925, 93, 10]"

definition v1_line_routing_plan :: pystr where
  "v1_line_routing_plan =
     [10, 91, 46972, 50864, 54021, 32, 44228, 54925, 93]"

definition line_run :: pystr where
  "line_run =
     [10, 91, 49892, 54665, 93, 32]"

definition line_run_skill :: pystr where
  "line_run_skill =
     asc '' Skill''"

definition line_run_agent :: pystr where
  "line_run_agent =
     [32, 50640, 51060, 51204, 53944]"

definition line_multi_step :: pystr where
  "line_multi_step =
     [10, 91, 47680, 54000, 49828, 53597, 32, 49892, 54665, 93]"

definition line_step :: pystr where
  "line_step =
     [10] @ asc ''[Step ''"

definition line_step_result :: pystr where
  "line_step_result =
     [32, 44208, 44284, 93, 10]"

definition line_quick_route :: pystr where
  "line_quick_route =
     [91, 48736, 47480, 32, 46972, 50864, 54021, 93, 32]"

definition line_keyword_match :: pystr where
  "line_keyword_match =
     [32, 40, 53412, 50892, 46300, 32, 47588, 52845, 41]"

definition keywords_map :: "(pystr \<times> pystr list) list" where
  "keywords_map =
     [(asc ''data_analytics'',
        [[53685, 44228],
         [48516, 49437],
         [52628, 49464],
         [50948, 54744, 46020],
         [48708, 44368],
         [44228, 49328],
         [51613, 44048],
         [48320, 54868],
         [54217, 44032],
         [47566, 51008],
         [51201, 51008],
         [45458, 51008],
         [45230, 51008]]),
      (asc ''report_generation'',
        [[48372, 44256, 49436],
         [51312, 52824],
         [48169, 50504],
         [45824, 51025],
         [51089, 49457],
         [49373, 49457],
         [44032, 51060, 46300],
         [44228, 54925],
         [50836, 50557],
         [51221, 47532]]),
      (asc ''knowledge_management'',
        [[44160, 49353],
         [52286, 50500],
         [50508, 47140],
         [48277, 44508],
         [44508, 51221],
         [50612, 46523, 44172],
         [47924, 50631],
         [50780],
         [49444, 47749],
         [50504, 45236],
         [44368, 50977]]),
      (asc ''vision_analysis'',
        [[51060, 48120, 51648],
         [49324, 51652],
         [50689, 49345],
         [48516, 49437],
         [80, 80, 69],
         [52265, 50857],
         [44048, 51648],
         [54869, 51064],
         [48708, 44368]])]"

definition event_keywords :: "(pystr \<times> pystr list) list" where
  "event_keywords =
     [(asc ''NO_HELMET'',
        [[54764, 47719],
         [50504, 51204, 47784],
         [47784, 51088]]),
      (asc ''NO_SAFETY_VEST'',
        [[51312, 45180],
         [50504, 51204, 51312, 45180],
         [54805, 44305, 51312, 45180]]),
      (asc ''FALL_DETECTED'',
        [[45209, 49345],
         [45336, 50612, 51664],
         [46504, 50612, 51664],
         [52628, 46973]]),
      (asc ''FIRE_HAZARD'',
        [[54868, 51116],
         [48520],
         [50672, 44592]]),
      (asc ''RESTRICTED_AREA'',
        [[51228, 54620, 44396, 50669],
         [52636, 51077, 44552, 51648],
         [53685, 51228, 44396, 50669]]),
      (asc ''EQUIPMENT_MISUSE'',
        [[51109, 48708],
         [46020, 44396],
         [44592, 44228]])]"

definition task_mapping :: "(pystr \<times> (pystr \<times> pystr) list) list" where
  "task_mapping =
     [(asc ''data_analytics'',
        [([53685, 44228], asc ''calculate_statistics''),
         ([52628, 49464], asc ''analyze_trend''),
         ([50948, 54744, 46020], asc ''assess_risk''),
         ([48708, 44368], asc ''compare_periods''),
         ([47566, 51008], asc ''find_top_cameras'')]),
      (asc ''report_generation'',
        [([51312, 52824], asc ''generate_action_plan''),
         ([45824, 51025], asc ''generate_action_plan''),
         ([48169, 50504], asc ''generate_action_plan''),
         ([50612, 46523, 44172], asc ''generate_action_plan''),
         ([51068, 51068], asc ''generate_daily_report''),
         ([51452, 44036], asc ''generate_weekly_report''),
         ([49324, 44256], asc ''generate_incident_report''),
         ([50836, 50557], asc ''generate_summary''),
         ([48372, 44256, 49436], asc ''generate_event_report'')]),
      (asc ''knowledge_management'',
        [([44160, 49353], asc ''search_knowledge''),
         ([48277, 44508], asc ''search_regulations''),
         ([44508, 51221], asc ''search_regulations''),
         ([52286, 50500], asc ''search_knowledge''),
         ([50508, 47140], asc ''answer_question'')]),
      (asc ''vision_analysis'',
        [([48516, 49437], asc ''analyze_image''),
         ([80, 80, 69], asc ''detect_ppe''),
         ([52265, 50857], asc ''detect_ppe''),
         ([48708, 44368], asc ''compare_images'')])]"

section \<open>Router: the keyword stage\<close>

text \<open>
  \<^verbatim>\<open>for skill, keywords in keywords_map.items(): if any(kw in user_input for kw in keywords): return skill\<close>
  over an arbitrary table in its declared order; \<open>None\<close> when the loop ends.
\<close>

fun keyword_table_scan :: "(pystr \<times> pystr list) list \<Rightarrow> pystr \<Rightarrow> pystr option" where
  "keyword_table_scan [] user_input = None"
| "keyword_table_scan ((skill, keywords) # rest) user_input =
     (if list_ex (\<lambda>kw. str_contains kw user_input) keywords then Some skill
      else keyword_table_scan rest user_input)"

definition quick_route :: "pystr \<Rightarrow> pystr option" where
  "quick_route user_input = keyword_table_scan keywords_map user_input"

section \<open>Task Resolver\<close>

text \<open>Lists and dicts are unhashable: using one as a dict key raises \<^verbatim>\<open>TypeError\<close>.\<close>

fun json_type_name :: "json \<Rightarrow> pystr" where
  "json_type_name JNull = asc ''NoneType''"
| "json_type_name (JBool b) = asc ''bool''"
| "json_type_name (JInt i) = asc ''int''"
| "json_type_name (JFloat f) = asc ''float''"
| "json_type_name (JStr s) = asc ''str''"
| "json_type_name (JArr xs) = asc ''list''"
| "json_type_name (JObj kvs) = asc ''dict''"

fun hashable :: "json \<Rightarrow> bool" where
  "hashable (JArr xs) = False"
| "hashable (JObj kvs) = False"
| "hashable j = True"

definition unhashable_error :: "json \<Rightarrow> exn" where
  "unhashable_error j = Exn TypeError (asc ''unhashable type: '' @ [39] @ json_type_name j @ [39])"

text \<open>
  \<^verbatim>\<open>d.get(key)\<close> on a dict whose keys are all strings, with a key that is any JSON value.
\<close>

definition str_dict_get :: "(pystr \<times> 'a) list \<Rightarrow> json \<Rightarrow> exn + 'a option" where
  "str_dict_get d key =
     (if \<not> hashable key then Inl (unhashable_error key)
      else case key of JStr s \<Rightarrow> Inr (map_of d s) | _ \<Rightarrow> Inr None)"

text \<open>
  \<^verbatim>\<open>for keyword, task in ...['keywords'].items(): if keyword in user_input: return task\<close>
\<close>

fun keyword_scan :: "(pystr \<times> pystr) list \<Rightarrow> pystr \<Rightarrow> pystr option" where
  "keyword_scan [] user_input = None"
| "keyword_scan ((keyword, task) # rest) user_input =
     (if str_contains keyword user_input then Some task else keyword_scan rest user_input)"

definition default_tasks :: "(pystr \<times> pystr) list" where
  "default_tasks =
     [(asc ''data_analytics'', asc ''calculate_statistics''),
      (asc ''report_generation'', asc ''generate_action_plan''),
      (asc ''knowledge_management'', asc ''search_knowledge''),
      (asc ''vision_analysis'', asc ''analyze_image'')]"

definition determine_task :: "pystr \<Rightarrow> json \<Rightarrow> exn + pystr" where
  "determine_task user_input skill_name =
     (case str_dict_get task_mapping skill_name of
        Inl e \<Rightarrow> Inl e
      | Inr entry \<Rightarrow>
          (case (case entry of None \<Rightarrow> None | Some keywords \<Rightarrow> keyword_scan keywords user_input) of
             Some task \<Rightarrow> Inr task
           | None \<Rightarrow>
               (case str_dict_get default_tasks skill_name of
                  Inl e \<Rightarrow> Inl e
                | Inr None \<Rightarrow> Inr (asc ''execute'')
                | Inr (Some task) \<Rightarrow> Inr task)))"

text \<open>
  The Task Resolver as the specification words it: the task of the first keyword, in
  declared order, that occurs in the text, the default task when none does.
\<close>

definition resolve_spec :: "(pystr \<times> pystr) list \<Rightarrow> pystr \<Rightarrow> pystr \<Rightarrow> pystr" where
  "resolve_spec table default_task request =
     (case find (\<lambda>row. str_contains (fst row) request) table of
        Some row \<Rightarrow> snd row
      | None \<Rightarrow> default_task)"

definition declared_table :: "pystr \<Rightarrow> (pystr \<times> pystr) list" where
  "declared_table skill = (case map_of task_mapping skill of Some t \<Rightarrow> t | None \<Rightarrow> [])"

definition declared_default :: "pystr \<Rightarrow> pystr" where
  "declared_default skill =
     (case map_of default_tasks skill of Some t \<Rightarrow> t | None \<Rightarrow> asc ''execute'')"

section \<open>Collaborators\<close>

text \<open>
  A skill is what the Skill Manager sees of it: \<^verbatim>\<open>validate_input(task, context)\<close> and
  \<^verbatim>\<open>execute(task, context)\<close>, either of which may raise.
\<close>

record skill =
  validate_input :: "pystr \<Rightarrow> pyval \<Rightarrow> raised + bool"
  skill_execute :: "pystr \<Rightarrow> pyval \<Rightarrow> raised + pyval"

text \<open>
  Everything outside the engine: the generation collaborator (\<^verbatim>\<open>llm.invoke(prompt).content\<close>,
  text or an \<^verbatim>\<open>Exception\<close>), the library functions \<^verbatim>\<open>json.loads\<close>, \<^verbatim>\<open>json.dumps\<close> and
  \<^verbatim>\<open>str\<close> on a value that is not a string, the message of the codec's error for a text that
  cannot be encoded, and the loaded skills by name. The generation collaborator and the
  \<^verbatim>\<open>json\<close> functions are taken to raise \<^verbatim>\<open>Exception\<close>s only; a skill may raise anything.
  The lines the Router prints inside its own handlers are left out.
\<close>

record world =
  llm_invoke :: "pystr \<Rightarrow> exn + pystr"
  json_loads :: "pystr \<Rightarrow> exn + json"
  json_dumps :: "pyval \<Rightarrow> exn + pystr"
  repr_of :: "pyval \<Rightarrow> pystr"
  encode_error_text :: "pystr \<Rightarrow> pystr"
  skills :: "(pystr \<times> skill) list"

section \<open>Python operations\<close>

text \<open>Sequencing: what is raised first ends the computation.\<close>

definition then_do :: "'e + 'a \<Rightarrow> ('a \<Rightarrow> 'e + 'b) \<Rightarrow> 'e + 'b" where
  "then_do m f = (case m of Inl e \<Rightarrow> Inl e | Inr x \<Rightarrow> f x)"

text \<open>An operation that raises \<^verbatim>\<open>Exception\<close>s only, among those that may raise anything.\<close>

definition raising :: "exn + 'a \<Rightarrow> raised + 'a" where
  "raising m = (case m of Inl e \<Rightarrow> Inl (Exc e) | Inr x \<Rightarrow> Inr x)"

text \<open>
  \<^verbatim>\<open>try: ... except Exception as e: return h(e)\<close>: an \<^verbatim>\<open>Exception\<close> is handled, an exception of
  a class outside \<^verbatim>\<open>Exception\<close> goes on to the caller.
\<close>

definition except_exception :: "raised + 'a \<Rightarrow> (exn \<Rightarrow> 'a) \<Rightarrow> raised + 'a" where
  "except_exception m h =
     (case m of
        Inr x \<Rightarrow> Inr x
      | Inl (Exc e) \<Rightarrow> Inr (h e)
      | Inl (Exit k msg) \<Rightarrow> Inl (Exit k msg))"

text \<open>
  \<^verbatim>\<open>print(s)\<close> on a standard output that encodes UTF-8 strictly: every code point but a
  surrogate (U+D800 to U+DFFF) can be written, and a text holding a surrogate raises
  \<^verbatim>\<open>UnicodeEncodeError\<close>. (The tracebacks of the handlers go to the standard error stream,
  which escapes what it cannot encode.)
\<close>

definition stdout_encodable :: "nat \<Rightarrow> bool" where
  "stdout_encodable c = (c < 55296 \<or> 57343 < c)"

definition printable :: "pystr \<Rightarrow> bool" where
  "printable s = list_all stdout_encodable s"

definition print_text :: "world \<Rightarrow> pystr \<Rightarrow> raised + unit" where
  "print_text w s =
     (if printable s then Inr ()
      else Inl (Exc (Exn UnicodeEncodeError (encode_error_text w s))))"

fun float_truthy :: "pyfloat \<Rightarrow> bool" where
  "float_truthy (Finite m e) = (m \<noteq> 0)"
| "float_truthy f = True"

fun json_truthy :: "json \<Rightarrow> bool" where
  "json_truthy JNull = False"
| "json_truthy (JBool b) = b"
| "json_truthy (JInt i) = (i \<noteq> 0)"
| "json_truthy (JFloat f) = float_truthy f"
| "json_truthy (JStr s) = (s \<noteq> [])"
| "json_truthy (JArr xs) = (xs \<noteq> [])"
| "json_truthy (JObj kvs) = (kvs \<noteq> [])"

fun py_truthy :: "pyval \<Rightarrow> bool" where
  "py_truthy PNone = False"
| "py_truthy (PBool b) = b"
| "py_truthy (PInt i) = (i \<noteq> 0)"
| "py_truthy (PFloat f) = float_truthy f"
| "py_truthy (PStr s) = (s \<noteq> [])"
| "py_truthy (PList xs) = (xs \<noteq> [])"
| "py_truthy (PDict kvs) = (kvs \<noteq> [])"
| "py_truthy (PObj c attrs) = True"

fun py_type_name :: "pyval \<Rightarrow> pystr" where
  "py_type_name PNone = asc ''NoneType''"
| "py_type_name (PBool b) = asc ''bool''"
| "py_type_name (PInt i) = asc ''int''"
| "py_type_name (PFloat f) = asc ''float''"
| "py_type_name (PStr s) = asc ''str''"
| "py_type_name (PList xs) = asc ''list''"
| "py_type_name (PDict kvs) = asc ''dict''"
| "py_type_name (PObj c attrs) = c"

definition attribute_error :: "pystr \<Rightarrow> pystr \<Rightarrow> exn" where
  "attribute_error type_name attr =
     Exn AttributeError
       ([39] @ type_name @ [39] @ asc '' object has no attribute '' @ [39] @ attr @ [39])"

text \<open>\<^verbatim>\<open>str(v)\<close>, and the same for the values of a parsed plan.\<close>

definition py_str :: "world \<Rightarrow> pyval \<Rightarrow> pystr" where
  "py_str w v = (case v of PStr s \<Rightarrow> s | _ \<Rightarrow> repr_of w v)"

definition json_str :: "world \<Rightarrow> json \<Rightarrow> pystr" where
  "json_str w j = py_str w (to_py j)"

text \<open>\<^verbatim>\<open>v.get(key, default)\<close>: only a dict has \<^verbatim>\<open>get\<close>.\<close>

definition json_get :: "json \<Rightarrow> pystr \<Rightarrow> json \<Rightarrow> exn + json" where
  "json_get j key dflt =
     (case j of
        JObj kvs \<Rightarrow> Inr (case map_of kvs key of Some v \<Rightarrow> v | None \<Rightarrow> dflt)
      | _ \<Rightarrow> Inl (attribute_error (json_type_name j) (asc ''get'')))"

definition py_get :: "pyval \<Rightarrow> pystr \<Rightarrow> pyval \<Rightarrow> exn + pyval" where
  "py_get v key dflt =
     (case v of
        PDict kvs \<Rightarrow> Inr (case map_of kvs key of Some x \<Rightarrow> x | None \<Rightarrow> dflt)
      | _ \<Rightarrow> Inl (attribute_error (py_type_name v) (asc ''get'')))"

text \<open>\<^verbatim>\<open>for x in v\<close>: the elements of a list, the characters of a string, the keys of a dict.\<close>

definition iter_items :: "json \<Rightarrow> exn + json list" where
  "iter_items j =
     (case j of
        JArr xs \<Rightarrow> Inr xs
      | JStr s \<Rightarrow> Inr (map (\<lambda>c. JStr [c]) s)
      | JObj kvs \<Rightarrow> Inr (map (\<lambda>kv. JStr (fst kv)) kvs)
      | _ \<Rightarrow> Inl (Exn TypeError ([39] @ json_type_name j @ [39] @ asc '' object is not iterable'')))"

text \<open>\<^verbatim>\<open>sep.join(xs)\<close>\<close>

fun str_join :: "pystr \<Rightarrow> pystr list \<Rightarrow> pystr" where
  "str_join sep [] = []"
| "str_join sep [x] = x"
| "str_join sep (x # y # ys) = x @ sep @ str_join sep (y # ys)"

text \<open>
  \<^verbatim>\<open>s.replace(old, new)\<close>: the occurrences of \<open>old\<close> from the left, without overlap; with an
  empty \<open>old\<close>, \<open>new\<close> goes before every character and at the end.
\<close>

function str_replace :: "pystr \<Rightarrow> pystr \<Rightarrow> pystr \<Rightarrow> pystr" where
  "str_replace old new s =
     (if old = [] then new @ concat (map (\<lambda>c. c # new) s)
      else if s = [] then []
      else if prefix old s then new @ str_replace old new (drop (length old) s)
      else hd s # str_replace old new (tl s))"
  by pat_completeness auto
termination
  by (relation "measure (\<lambda>(old, new, s). length s)") auto

text \<open>\<^verbatim>\<open>s.strip()\<close>: the characters for which \<^verbatim>\<open>str.isspace\<close> holds are dropped at both ends.\<close>

definition is_space :: "nat \<Rightarrow> bool" where
  "is_space c =
     ((9 \<le> c \<and> c \<le> 13) \<or> (28 \<le> c \<and> c \<le> 32) \<or> c = 133 \<or> c = 160 \<or> c = 5760 \<or>
      (8192 \<le> c \<and> c \<le> 8202) \<or> c = 8232 \<or> c = 8233 \<or> c = 8239 \<or> c = 8287 \<or> c = 12288)"

definition py_strip :: "pystr \<Rightarrow> pystr" where
  "py_strip s = rev (dropWhile is_space (rev (dropWhile is_space s)))"

text \<open>
  \<^verbatim>\<open>re.search(r'\{[\s\S]*\}', s)\<close>: the match starts at the first \<open>{\<close> and, the star being
  greedy over every character, ends at the last \<open>}\<close> after it; there is no match when no
  \<open>}\<close> follows the first \<open>{\<close>.
\<close>

definition re_search_braces :: "pystr \<Rightarrow> pystr option" where
  "re_search_braces s =
     (case dropWhile (\<lambda>c. c \<noteq> 123) s of
        [] \<Rightarrow> None
      | opening # rest \<Rightarrow>
          (case rev (dropWhile (\<lambda>c. c \<noteq> 125) (rev rest)) of
             [] \<Rightarrow> None
           | inner \<Rightarrow> Some (opening # inner)))"

section \<open>Skill Manager\<close>

text \<open>
  \<^verbatim>\<open>SkillManager.execute_skill\<close>: an unknown skill and a failed validation raise
  \<^verbatim>\<open>ValueError\<close>; an \<^verbatim>\<open>Exception\<close> of the skill's \<^verbatim>\<open>execute\<close> is caught and reported in the
  result.
\<close>

definition execute_skill :: "world \<Rightarrow> json \<Rightarrow> pystr \<Rightarrow> pyval \<Rightarrow> raised + pyval" where
  "execute_skill w skill_name task context =
     (case str_dict_get (skills w) skill_name of
        Inl e \<Rightarrow> Inl (Exc e)
      | Inr None \<Rightarrow> Inl (Exc (Exn ValueError (msg_skill_not_found @ json_str w skill_name)))
      | Inr (Some skill) \<Rightarrow>
          (case validate_input skill task (if py_truthy context then context else PDict []) of
             Inl r \<Rightarrow> Inl r
           | Inr valid \<Rightarrow>
               if \<not> valid then
                 Inl (Exc (Exn ValueError
                   (msg_invalid_input_0 @ json_str w skill_name @ msg_invalid_input_1 @ task @ [39])))
               else
                 except_exception
                   (then_do (skill_execute skill task context) (\<lambda>result.
                      Inr (PDict [(asc ''success'', PBool True), (asc ''skill'', to_py skill_name),
                                  (asc ''task'', PStr task), (asc ''result'', result)])))
                   (\<lambda>e. PDict [(asc ''success'', PBool False), (asc ''skill'', to_py skill_name),
                               (asc ''task'', PStr task), (asc ''error'', PStr (exn_str e))])))"

section \<open>Supervisor V2: formatting a skill result\<close>

text \<open>\<^verbatim>\<open>_format_dict\<close>: one line per item of the dict, joined by newlines.\<close>

definition format_dict :: "world \<Rightarrow> pyval \<Rightarrow> exn + pystr" where
  "format_dict w d =
     (case d of
        PDict kvs \<Rightarrow>
          Inr (str_join [10]
            (map (\<lambda>kv. format_dict_prefix @ fst kv @ asc '': '' @ py_str w (snd kv) @ format_dict_suffix)
               kvs))
      | _ \<Rightarrow> Inl (attribute_error (py_type_name d) (asc ''items'')))"

text \<open>
  The statistics text of \<^verbatim>\<open>_format_result\<close>; its fields are read from left to right, and
  reading \<^verbatim>\<open>get\<close> or \<^verbatim>\<open>items\<close> from a value that is not a dict raises.
\<close>

definition format_statistics :: "world \<Rightarrow> pyval \<Rightarrow> exn + pystr" where
  "format_statistics w stats =
     then_do (py_get stats (asc ''period'') (PDict [])) (\<lambda>period.
     then_do (py_get period (asc ''start_date'') (PStr (asc ''N/A''))) (\<lambda>start_date.
     then_do (py_get period (asc ''end_date'') (PStr (asc ''N/A''))) (\<lambda>end_date.
     then_do (py_get stats (asc ''total_events'') (PInt 0)) (\<lambda>total_events.
     then_do (py_get stats (asc ''resolved'') (PInt 0)) (\<lambda>resolved.
     then_do (py_get stats (asc ''unresolved'') (PInt 0)) (\<lambda>unresolved.
     then_do (py_get stats (asc ''resolution_rate'') (PInt 0)) (\<lambda>resolution_rate.
     then_do (py_get stats (asc ''by_event_type'') (PDict [])) (\<lambda>by_event_type.
     then_do (format_dict w by_event_type) (\<lambda>event_lines.
     then_do (py_get stats (asc ''by_severity'') (PDict [])) (\<lambda>by_severity.
     then_do (format_dict w by_severity) (\<lambda>severity_lines.
       Inr (stats_text_0 @ py_str w start_date @ stats_text_1 @ py_str w end_date @
            stats_text_2 @ py_str w total_events @ stats_text_3 @ py_str w resolved @
            stats_text_4 @ py_str w unresolved @ stats_text_5 @ py_str w resolution_rate @
            stats_text_6 @ event_lines @ stats_text_7 @ severity_lines @ stats_text_8))))))))))))"

text \<open>
  The \<^verbatim>\<open>results\<close> branch of \<^verbatim>\<open>_format_result\<close>: it returns only for a non-empty list, the
  \<^verbatim>\<open>content\<close> of a first element that is a dict, the \<^verbatim>\<open>page_content\<close> of one that has the
  attribute, and \<^verbatim>\<open>str\<close> of it otherwise.
\<close>

definition first_result_content :: "world \<Rightarrow> pyval \<Rightarrow> pyval option" where
  "first_result_content w results =
     (case results of
        PList (first_result # others) \<Rightarrow>
          Some (case first_result of
                  PDict d \<Rightarrow> (case map_of d (asc ''content'') of Some c \<Rightarrow> c | None \<Rightarrow> PStr [])
                | PObj c attrs \<Rightarrow>
                    (case map_of attrs (asc ''page_content'') of
                       Some p \<Rightarrow> p
                     | None \<Rightarrow> PStr (py_str w first_result))
                | _ \<Rightarrow> PStr (py_str w first_result))
      | _ \<Rightarrow> None)"

definition format_result :: "world \<Rightarrow> (pystr \<times> pyval) list \<Rightarrow> json \<Rightarrow> pystr \<Rightarrow> exn + pyval" where
  "format_result w result skill_name task =
     (case map_of result (asc ''report'') of Some v \<Rightarrow> Inr v | None \<Rightarrow>
     (case map_of result (asc ''action_plan'') of Some v \<Rightarrow> Inr v | None \<Rightarrow>
     (case map_of result (asc ''summary'') of Some v \<Rightarrow> Inr v | None \<Rightarrow>
     (case map_of result (asc ''answer'') of Some v \<Rightarrow> Inr v | None \<Rightarrow>
     (case (case map_of result (asc ''results'') of
              Some results \<Rightarrow> first_result_content w results
            | None \<Rightarrow> None) of Some v \<Rightarrow> Inr v | None \<Rightarrow>
     (case map_of result (asc ''guide'') of Some v \<Rightarrow> Inr v | None \<Rightarrow>
     (case map_of result (asc ''statistics'') of
        Some stats \<Rightarrow> then_do (format_statistics w stats) (\<lambda>s. Inr (PStr s))
      | None \<Rightarrow> then_do (json_dumps w (PDict result)) (\<lambda>s. Inr (PStr s)))))))))"

section \<open>Supervisor V2: running one skill\<close>

definition extract_event_type :: "pystr \<Rightarrow> pystr" where
  "extract_event_type user_input =
     (case keyword_table_scan event_keywords user_input of
        Some event_type \<Rightarrow> event_type
      | None \<Rightarrow> asc ''UNKNOWN'')"

text \<open>The context of \<^verbatim>\<open>_execute_skill\<close> before the images are added.\<close>

definition skill_context :: "json \<Rightarrow> pystr \<Rightarrow> json \<Rightarrow> pystr \<Rightarrow> (pystr \<times> pyval) list" where
  "skill_context skill_name task task_description original_input =
     (let context = [(asc ''query'', PStr original_input),
                     (asc ''task_description'', to_py task_description)]
      in if skill_name = JStr (asc ''report_generation'') then
           if task = asc ''generate_action_plan'' then
             AList.update (asc ''knowledge_context'') (PStr (knowledge_context_prefix @ original_input))
               (AList.update (asc ''event_data'')
                  (PDict [(asc ''event_type'', PStr (extract_event_type original_input)),
                          (asc ''description'', PStr original_input),
                          (asc ''severity'', PStr (asc ''MEDIUM'')),
                          (asc ''timestamp'', PStr (asc ''N/A''))])
                  context)
           else if task = asc ''generate_event_report'' then
             AList.update (asc ''events'')
               (case map_of context (asc ''events'') of Some v \<Rightarrow> v | None \<Rightarrow> PList []) context
           else if task = asc ''generate_statistics_report'' then
             AList.update (asc ''statistics'')
               (case map_of context (asc ''statistics'') of Some v \<Rightarrow> v | None \<Rightarrow> PDict []) context
           else context
         else context)"

text \<open>The body of the \<^verbatim>\<open>try\<close> of \<^verbatim>\<open>_execute_skill\<close>.\<close>

definition execute_skill_body :: "world \<Rightarrow> json \<Rightarrow> json \<Rightarrow> pystr \<Rightarrow> pyval \<Rightarrow> raised + pyval" where
  "execute_skill_body w skill_name task_description original_input image_data =
     then_do (raising (determine_task original_input skill_name)) (\<lambda>task.
     then_do
       (if py_truthy image_data then
          then_do (raising (py_get image_data (asc ''images'') (PList []))) (\<lambda>images.
            Inr (AList.update (asc ''images'') images
                   (skill_context skill_name task task_description original_input)))
        else Inr (skill_context skill_name task task_description original_input)) (\<lambda>context.
     then_do (execute_skill w skill_name task (PDict context)) (\<lambda>result.
       case result of
         PDict d \<Rightarrow> raising (format_result w d skill_name task)
       | _ \<Rightarrow> Inr (PStr (py_str w result)))))"

text \<open>
  \<^verbatim>\<open>SupervisorAgentV2._execute_skill\<close>: two progress lines, the first with the skill name,
  then the \<^verbatim>\<open>try\<close>, in which every \<^verbatim>\<open>Exception\<close> of the body becomes a text.
\<close>

definition supervisor_execute_skill :: "world \<Rightarrow> json \<Rightarrow> json \<Rightarrow> pystr \<Rightarrow> pyval \<Rightarrow> raised + pyval" where
  "supervisor_execute_skill w skill_name task_description original_input image_data =
     then_do (print_text w (line_run @ json_str w skill_name @ line_run_skill)) (\<lambda>u.
     then_do (print_text w (replicate 60 61)) (\<lambda>u.
       except_exception
         (execute_skill_body w skill_name task_description original_input image_data)
         (\<lambda>e. PStr (json_str w skill_name @ msg_skill_error @ exn_str e))))"

section \<open>Supervisor V2: the planning stage of the Router\<close>

definition routing_prompt :: "pystr \<Rightarrow> pystr" where
  "routing_prompt user_input = routing_prompt_head @ user_input @ routing_prompt_tail"

definition clean_response :: "pystr \<Rightarrow> pystr" where
  "clean_response content =
     py_strip (str_replace [96, 96, 96] [] (str_replace ([96, 96, 96] @ asc ''json'') [] content))"

definition fallback_plan :: "pystr \<Rightarrow> pystr \<Rightarrow> json" where
  "fallback_plan user_input reason =
     JObj [(asc ''skill'', JStr (asc ''knowledge_management'')),
           (asc ''task'', JStr user_input),
           (asc ''multi_step'', JBool False),
           (asc ''reason'', JStr reason)]"

text \<open>The body of the \<^verbatim>\<open>try\<close> of \<^verbatim>\<open>llm_route\<close>, and \<^verbatim>\<open>llm_route\<close> with its handler.\<close>

definition llm_route_body :: "world \<Rightarrow> pystr \<Rightarrow> exn + json" where
  "llm_route_body w user_input =
     then_do (llm_invoke w (routing_prompt user_input)) (\<lambda>content.
       case re_search_braces (clean_response content) of
         None \<Rightarrow> Inr (fallback_plan user_input reason_parse_failed)
       | Some json_match \<Rightarrow> json_loads w json_match)"

definition llm_route :: "world \<Rightarrow> pystr \<Rightarrow> json" where
  "llm_route w user_input =
     (case llm_route_body w user_input of
        Inr routing_plan \<Rightarrow> routing_plan
      | Inl e \<Rightarrow> fallback_plan user_input (reason_error_prefix @ exn_str e))"

section \<open>Supervisor V2: multi-step execution\<close>

record step_result =
  sr_step :: nat
  sr_skill :: json
  sr_task :: json
  sr_result :: pyval

text \<open>
  \<^verbatim>\<open>result[:200]\<close>, rendered for the progress line: only a sequence can be sliced.
\<close>

definition result_preview :: "world \<Rightarrow> pyval \<Rightarrow> exn + pystr" where
  "result_preview w v =
     (case v of
        PStr s \<Rightarrow> Inr (take 200 s)
      | PList xs \<Rightarrow> Inr (py_str w (PList (take 200 xs)))
      | PDict kvs \<Rightarrow> Inl (Exn TypeError (asc ''unhashable type: '' @ [39] @ asc ''slice'' @ [39]))
      | _ \<Rightarrow> Inl (Exn TypeError ([39] @ py_type_name v @ [39] @ asc '' object is not subscriptable'')))"

text \<open>
  The two progress lines of a step: \<^verbatim>\<open>[Step i/n] name - task\<close> before it runs and
  \<^verbatim>\<open>[Step i ...]\<close> with the first 200 characters of its result after it.
\<close>

definition step_line :: "world \<Rightarrow> nat \<Rightarrow> nat \<Rightarrow> json \<Rightarrow> json \<Rightarrow> pystr" where
  "step_line w i n name task =
     line_step @ py_str w (PInt (int i)) @ [47] @ py_str w (PInt (int n)) @ [93, 32] @
     json_str w name @ [32, 45, 32] @ json_str w task"

definition result_line :: "world \<Rightarrow> nat \<Rightarrow> pystr \<Rightarrow> pystr" where
  "result_line w i preview =
     line_step @ py_str w (PInt (int i)) @ line_step_result @ preview @ [46, 46, 46]"

text \<open>
  The task description a step is run with: the step's own, followed by the previous
  step's result when that is not empty.
\<close>

definition with_previous :: "world \<Rightarrow> json \<Rightarrow> pyval \<Rightarrow> json" where
  "with_previous w task_description context =
     (if py_truthy context then
        JStr (json_str w task_description @ previous_result_sep @ py_str w context)
      else task_description)"

text \<open>
  The loop of \<^verbatim>\<open>_execute_multi_step\<close> over the remaining steps, with the number \<open>n\<close> of
  steps, the step number, the previous result (\<^verbatim>\<open>context\<close>) and the results so far. Any
  exception, also of a progress line, leaves the loop.
\<close>

fun multi_step_loop ::
  "world \<Rightarrow> pystr \<Rightarrow> nat \<Rightarrow> json list \<Rightarrow> nat \<Rightarrow> pyval \<Rightarrow> step_result list \<Rightarrow>
     raised + step_result list" where
  "multi_step_loop w original_input n [] i context results = Inr results"
| "multi_step_loop w original_input n (step # rest) i context results =
     then_do (raising (json_get step (asc ''skill'') JNull)) (\<lambda>skill_name.
     then_do (raising (json_get step (asc ''task'') (JStr original_input))) (\<lambda>task_description.
     then_do (print_text w (step_line w i n skill_name task_description)) (\<lambda>u.
     then_do (print_text w (replicate 60 45)) (\<lambda>u.
     then_do (supervisor_execute_skill w skill_name
                (with_previous w task_description context) original_input PNone) (\<lambda>result.
     then_do (raising (result_preview w result)) (\<lambda>preview.
     then_do (print_text w (result_line w i preview)) (\<lambda>u.
       multi_step_loop w original_input n rest (Suc i) result
         (results @ [\<lparr>sr_step = i, sr_skill = skill_name,
                       sr_task = with_previous w task_description context,
                       sr_result = result\<rparr>]))))))))"

definition multi_step_results :: "world \<Rightarrow> json \<Rightarrow> pystr \<Rightarrow> raised + step_result list" where
  "multi_step_results w routing_plan original_input =
     then_do (print_text w line_multi_step) (\<lambda>u.
     then_do (raising (json_get routing_plan (asc ''steps'') (JArr []))) (\<lambda>steps.
     then_do (raising (iter_items steps)) (\<lambda>items.
       multi_step_loop w original_input (length items) items 1 (PStr []) [])))"

definition execute_multi_step :: "world \<Rightarrow> json \<Rightarrow> pystr \<Rightarrow> raised + pyval" where
  "execute_multi_step w routing_plan original_input =
     then_do (multi_step_results w routing_plan original_input) (\<lambda>results.
       Inr (if results = [] then PStr msg_no_result else sr_result (last results)))"

section \<open>Supervisor V2: the entry point\<close>

text \<open>
  \<^verbatim>\<open>SupervisorAgentV2.execute\<close>. The result is the response, or what is raised to the
  caller, together with the prompts the engine itself sent to the generation collaborator,
  in order. First the body of the \<^verbatim>\<open>try\<close>; it starts with the line that \<^verbatim>\<open>quick_route\<close>
  prints when it finds a skill.
\<close>

definition quick_route_print :: "world \<Rightarrow> pystr option \<Rightarrow> raised + unit" where
  "quick_route_print w skill_name =
     (case skill_name of
        None \<Rightarrow> Inr ()
      | Some skill \<Rightarrow> print_text w (line_quick_route @ skill @ line_keyword_match))"

definition execute_body :: "world \<Rightarrow> pystr \<Rightarrow> pyval \<Rightarrow> (raised + pyval) \<times> pystr list" where
  "execute_body w user_input image_data =
     (case quick_route_print w (quick_route user_input) of
        Inl r \<Rightarrow> (Inl r, [])
      | Inr u \<Rightarrow>
     (let skill_name = quick_route user_input
      in if skill_name = None \<or> skill_name = Some [] then
           (case print_text w line_llm_routing of
              Inl r \<Rightarrow> (Inl r, [])
            | Inr u \<Rightarrow>
                (let routing_plan = llm_route w user_input
                 in (then_do (raising (json_dumps w (to_py routing_plan))) (\<lambda>dump.
                     then_do (print_text w (line_routing_plan @ dump)) (\<lambda>u.
                     then_do (raising (json_get routing_plan (asc ''multi_step'') JNull)) (\<lambda>multi_step.
                       if json_truthy multi_step then
                         execute_multi_step w routing_plan user_input
                       else
                         then_do (raising (json_get routing_plan (asc ''skill'') JNull)) (\<lambda>skill_name.
                         then_do (raising (json_get routing_plan (asc ''task'') (JStr user_input)))
                           (\<lambda>task_description.
                             supervisor_execute_skill w skill_name task_description user_input
                               image_data))))),
                     [routing_prompt user_input])))
         else
           (supervisor_execute_skill w (JStr (the skill_name)) (JStr user_input) user_input
              image_data, [])))"

text \<open>
  The three lines printed before the \<^verbatim>\<open>try\<close>, the second with the request, then the
  \<^verbatim>\<open>try\<close> with its handler.
\<close>

definition print_request :: "world \<Rightarrow> pystr \<Rightarrow> raised + unit" where
  "print_request w user_input =
     then_do (print_text w (10 # replicate 60 61)) (\<lambda>u.
     then_do (print_text w (line_request @ user_input)) (\<lambda>u.
       print_text w (replicate 60 61)))"

definition execute :: "world \<Rightarrow> pystr \<Rightarrow> pyval \<Rightarrow> (raised + pyval) \<times> pystr list" where
  "execute w user_input image_data =
     (case print_request w user_input of
        Inl r \<Rightarrow> (Inl r, [])
      | Inr u \<Rightarrow>
          (except_exception (fst (execute_body w user_input image_data))
             (\<lambda>e. PStr (msg_request_error @ exn_str e)),
           snd (execute_body w user_input image_data)))"

section \<open>Supervisor V1: the agents\<close>

text \<open>
  The sub-agents of \<^verbatim>\<open>SupervisorAgent\<close>, each a function from its input to a text that may
  raise: \<^verbatim>\<open>query\<close>, \<^verbatim>\<open>analyze\<close>, \<^verbatim>\<open>generate_report\<close>, \<^verbatim>\<open>search\<close>, and the two image
  operations of the multimodal agent.
\<close>

record agents =
  agent_query :: "json \<Rightarrow> raised + pystr"
  agent_analyze :: "json \<Rightarrow> raised + pystr"
  agent_generate_report :: "json \<Rightarrow> raised + pystr"
  agent_search :: "json \<Rightarrow> raised + pystr"
  agent_analyze_image :: "pyval \<Rightarrow> json \<Rightarrow> raised + pystr"
  agent_analyze_multiple_images :: "pyval \<Rightarrow> json \<Rightarrow> raised + pystr"

text \<open>
  The multimodal branch of \<^verbatim>\<open>_execute_single_agent\<close>: \<^verbatim>\<open>len(images)\<close> and
  \<^verbatim>\<open>images[0]\<close> on whatever is stored under \<^verbatim>\<open>images\<close>.
\<close>

definition run_multimodal :: "agents \<Rightarrow> json \<Rightarrow> pyval \<Rightarrow> raised + pystr" where
  "run_multimodal ag user_input image_data =
     (if py_truthy image_data then
        then_do (raising (py_get image_data (asc ''images'') (PList []))) (\<lambda>images.
          case images of
            PList xs \<Rightarrow>
              (if length xs = 1 then agent_analyze_image ag (hd xs) user_input
               else if length xs > 1 then agent_analyze_multiple_images ag images user_input
               else Inr msg_no_images)
          | PStr s \<Rightarrow>
              (if length s = 1 then agent_analyze_image ag (PStr [hd s]) user_input
               else if length s > 1 then agent_analyze_multiple_images ag images user_input
               else Inr msg_no_images)
          | PDict kvs \<Rightarrow>
              (if length kvs = 1 then Inl (Exc (Exn OtherError (asc ''0'')))
               else if length kvs > 1 then agent_analyze_multiple_images ag images user_input
               else Inr msg_no_images)
          | _ \<Rightarrow>
              Inl (Exc (Exn TypeError
                (asc ''object of type '' @ [39] @ py_type_name images @ [39] @
                 asc '' has no len()''))))
      else Inr msg_needs_image)"

definition single_agent_body :: "world \<Rightarrow> agents \<Rightarrow> json \<Rightarrow> json \<Rightarrow> pyval \<Rightarrow> raised + pystr" where
  "single_agent_body w ag agent_name user_input image_data =
     (if agent_name = JStr (asc ''query'') then agent_query ag user_input
      else if agent_name = JStr (asc ''analysis'') then agent_analyze ag user_input
      else if agent_name = JStr (asc ''report'') then agent_generate_report ag user_input
      else if agent_name = JStr (asc ''search'') then agent_search ag user_input
      else if agent_name = JStr (asc ''multimodal'') then run_multimodal ag user_input image_data
      else Inr (msg_unknown_agent @ json_str w agent_name))"

text \<open>
  \<^verbatim>\<open>SupervisorAgent._execute_single_agent\<close>: two progress lines, the first with the agent
  name, then the \<^verbatim>\<open>try\<close> with its two handlers.
\<close>

definition execute_single_agent :: "world \<Rightarrow> agents \<Rightarrow> json \<Rightarrow> json \<Rightarrow> pyval \<Rightarrow> raised + pystr" where
  "execute_single_agent w ag agent_name user_input image_data =
     then_do (print_text w (line_run @ json_str w agent_name @ line_run_agent)) (\<lambda>u.
     then_do (print_text w (replicate 60 61)) (\<lambda>u.
       except_exception (single_agent_body w ag agent_name user_input image_data)
         (\<lambda>e. if exn_kind_of e = StopIteration then json_str w agent_name @ msg_agent_no_response
              else json_str w agent_name @ msg_agent_error @ exn_str e)))"

section \<open>Supervisor V1: the Router\<close>

definition v1_routing_prompt :: "pystr \<Rightarrow> pystr" where
  "v1_routing_prompt user_input = v1_routing_prompt_head @ user_input @ v1_routing_prompt_tail"

definition v1_fallback_plan :: "pystr \<Rightarrow> json" where
  "v1_fallback_plan reason =
     JObj [(asc ''agent'', JStr (asc ''query'')),
           (asc ''multi_step'', JBool False),
           (asc ''reason'', JStr reason)]"

text \<open>\<^verbatim>\<open>d[key] = value\<close> on a value known to be a dict.\<close>

definition json_set :: "json \<Rightarrow> pystr \<Rightarrow> json \<Rightarrow> json" where
  "json_set j key v = (case j of JObj kvs \<Rightarrow> JObj (AList.update key v kvs) | _ \<Rightarrow> j)"

text \<open>The plan after the \<^verbatim>\<open>search\<close> agent has been replaced at its top level.\<close>

definition replace_search_agent :: "world \<Rightarrow> json \<Rightarrow> exn + json" where
  "replace_search_agent w routing_plan =
     then_do (json_get routing_plan (asc ''agent'') JNull) (\<lambda>agent_name.
       if agent_name = JStr (asc ''search'') then
         then_do (json_get routing_plan (asc ''reason'') (JStr [])) (\<lambda>reason.
           Inr (json_set (json_set routing_plan (asc ''agent'') (JStr (asc ''report'')))
                  (asc ''reason'') (JStr (reason_search_replaced @ json_str w reason))))
       else Inr routing_plan)"

text \<open>The loop over the steps of a multi-step plan, each step rewritten in place.\<close>

fun replace_search_steps :: "world \<Rightarrow> json list \<Rightarrow> exn + json list" where
  "replace_search_steps w [] = Inr []"
| "replace_search_steps w (step # rest) =
     then_do (json_get step (asc ''agent'') JNull) (\<lambda>agent_name.
     then_do
       (if agent_name = JStr (asc ''search'') then
          then_do (json_get step (asc ''task'') (JStr [])) (\<lambda>task.
            Inr (json_set (json_set step (asc ''agent'') (JStr (asc ''report'')))
                   (asc ''task'') (JStr (task_internal_kb @ json_str w task))))
        else Inr step) (\<lambda>step.
     then_do (replace_search_steps w rest) (\<lambda>rest. Inr (step # rest))))"

definition replace_search_in_steps :: "world \<Rightarrow> json \<Rightarrow> exn + json" where
  "replace_search_in_steps w routing_plan =
     then_do (json_get routing_plan (asc ''multi_step'') JNull) (\<lambda>multi_step.
       case routing_plan of
         JObj kvs \<Rightarrow>
           (if json_truthy multi_step \<and> map_of kvs (asc ''steps'') \<noteq> None then
              (case the (map_of kvs (asc ''steps'')) of
                 JArr steps \<Rightarrow>
                   then_do (replace_search_steps w steps) (\<lambda>steps.
                     Inr (json_set routing_plan (asc ''steps'') (JArr steps)))
               | other \<Rightarrow>
                   then_do (iter_items other) (\<lambda>items.
                   then_do (replace_search_steps w items) (\<lambda>items. Inr routing_plan)))
            else Inr routing_plan)
       | _ \<Rightarrow> Inr routing_plan)"

definition route_body :: "world \<Rightarrow> pystr \<Rightarrow> exn + json" where
  "route_body w user_input =
     then_do (llm_invoke w (v1_routing_prompt user_input)) (\<lambda>content.
       case re_search_braces (clean_response content) of
         None \<Rightarrow> Inr (v1_fallback_plan reason_parse_failed)
       | Some json_match \<Rightarrow>
           then_do (json_loads w json_match) (\<lambda>routing_plan.
           then_do (replace_search_agent w routing_plan) (\<lambda>routing_plan.
             replace_search_in_steps w routing_plan)))"

definition route :: "world \<Rightarrow> pystr \<Rightarrow> json" where
  "route w user_input =
     (case route_body w user_input of
        Inr routing_plan \<Rightarrow> routing_plan
      | Inl e \<Rightarrow> v1_fallback_plan (reason_error_prefix @ exn_str e))"

section \<open>Supervisor V1: multi-step execution and synthesis\<close>

record agent_result =
  ar_step :: nat
  ar_agent :: json
  ar_task :: json
  ar_result :: pystr

text \<open>The input an agent is run with: the step's task, then the previous result if any.\<close>

definition task_with_context :: "world \<Rightarrow> json \<Rightarrow> pystr \<Rightarrow> json" where
  "task_with_context w task context =
     (if context \<noteq> [] then JStr (json_str w task @ previous_result_sep @ context) else task)"

fun v1_multi_step_loop ::
  "world \<Rightarrow> agents \<Rightarrow> pystr \<Rightarrow> nat \<Rightarrow> json list \<Rightarrow> nat \<Rightarrow> pystr \<Rightarrow> agent_result list \<Rightarrow>
     raised + agent_result list" where
  "v1_multi_step_loop w ag original_input n [] i context results = Inr results"
| "v1_multi_step_loop w ag original_input n (step # rest) i context results =
     then_do (raising (json_get step (asc ''agent'') JNull)) (\<lambda>agent_name.
     then_do (raising (json_get step (asc ''task'') (JStr original_input))) (\<lambda>task.
     then_do (print_text w (step_line w i n agent_name task)) (\<lambda>u.
     then_do (print_text w (replicate 60 45)) (\<lambda>u.
     then_do (execute_single_agent w ag agent_name (task_with_context w task context) PNone)
       (\<lambda>result.
     then_do (print_text w (result_line w i (take 200 result))) (\<lambda>u.
       v1_multi_step_loop w ag original_input n rest (Suc i) result
         (results @ [\<lparr>ar_step = i, ar_agent = agent_name, ar_task = task,
                       ar_result = result\<rparr>])))))))"

definition v1_multi_step_results ::
  "world \<Rightarrow> agents \<Rightarrow> json \<Rightarrow> pystr \<Rightarrow> raised + agent_result list" where
  "v1_multi_step_results w ag routing_plan original_input =
     then_do (print_text w line_multi_step) (\<lambda>u.
     then_do (raising (json_get routing_plan (asc ''steps'') (JArr []))) (\<lambda>steps.
     then_do (raising (iter_items steps)) (\<lambda>items.
       v1_multi_step_loop w ag original_input (length items) items 1 [] [])))"

text \<open>One entry of the synthesis prompt, and the whole prompt.\<close>

definition synthesis_entry :: "world \<Rightarrow> agent_result \<Rightarrow> pystr" where
  "synthesis_entry w r =
     synthesis_step_0 @ py_str w (PInt (int (ar_step r))) @ synthesis_step_1 @
     json_str w (ar_agent r) @ synthesis_step_2 @ json_str w (ar_task r) @ synthesis_step_3 @
     ar_result r @ synthesis_step_4"

definition synthesis_prompt :: "world \<Rightarrow> agent_result list \<Rightarrow> pystr \<Rightarrow> pystr" where
  "synthesis_prompt w results original_input =
     synthesis_prompt_head @ original_input @ synthesis_prompt_mid @
     concat (map (synthesis_entry w) results) @ synthesis_prompt_tail"

text \<open>
  \<^verbatim>\<open>_synthesize_results\<close>: the response and the prompts sent to the generation
  collaborator.
\<close>

definition synthesize_results :: "world \<Rightarrow> agent_result list \<Rightarrow> pystr \<Rightarrow> pystr \<times> pystr list" where
  "synthesize_results w results original_input =
     (if results = [] then (msg_no_result, [])
      else if length results = 1 then (ar_result (hd results), [])
      else
        (case llm_invoke w (synthesis_prompt w results original_input) of
           Inr content \<Rightarrow> content
         | Inl e \<Rightarrow> ar_result (last results),
         [synthesis_prompt w results original_input]))"

definition v1_execute_multi_step ::
  "world \<Rightarrow> agents \<Rightarrow> json \<Rightarrow> pystr \<Rightarrow> (raised + pystr) \<times> pystr list" where
  "v1_execute_multi_step w ag routing_plan original_input =
     (case v1_multi_step_results w ag routing_plan original_input of
        Inl r \<Rightarrow> (Inl r, [])
      | Inr results \<Rightarrow>
          (Inr (fst (synthesize_results w results original_input)),
           snd (synthesize_results w results original_input)))"

section \<open>Supervisor V1: the entry point\<close>




section \<open>Well-formedness of plans\<close>

text \<open>A Step is a mapping (a JSON object).\<close>

fun is_dict :: "json \<Rightarrow> bool" where
  "is_dict (JObj kvs) = True"
| "is_dict j = False"

section \<open>Concrete collaborators\<close>

text \<open>
  A small world on which the properties below are evaluated: one loaded skill,
  \<open>report_generation\<close>, that accepts every input and returns a report; a generation
  collaborator that always answers with a given text; \<^verbatim>\<open>json.loads\<close> on the two plan texts
  used below; a fixed rendering for \<^verbatim>\<open>json.dumps\<close>, \<^verbatim>\<open>str\<close> and the codec's error message.
\<close>

definition demo_plan_text :: pystr where
  "demo_plan_text =
     [123, 34] @ asc ''multi_step'' @ [34] @ asc '': true, '' @ [34] @ asc ''steps'' @ [34] @
     asc '': [{'' @ [34] @ asc ''skill'' @ [34, 58, 32, 34] @ asc ''unknown_skill'' @
     [34, 44, 32, 34] @ asc ''task'' @ [34, 58, 32, 34, 116, 49, 34] @ asc ''}, {'' @ [34] @
     asc ''skill'' @ [34, 58, 32, 34] @ asc ''report_generation'' @ [34, 44, 32, 34] @
     asc ''task'' @ [34, 58, 32, 34, 116, 50, 34, 125, 93, 125]"

definition empty_plan_text :: pystr where
  "empty_plan_text =
     [123, 34] @ asc ''multi_step'' @ [34] @ asc '': true, '' @ [34] @ asc ''steps'' @ [34] @
     asc '': []}''"

definition demo_steps :: "json list" where
  "demo_steps =
     [JObj [(asc ''skill'', JStr (asc ''unknown_skill'')), (asc ''task'', JStr (asc ''t1''))],
      JObj [(asc ''skill'', JStr (asc ''report_generation'')), (asc ''task'', JStr (asc ''t2''))]]"

definition demo_plan :: "(pystr \<times> json) list" where
  "demo_plan = [(asc ''multi_step'', JBool True), (asc ''steps'', JArr demo_steps)]"

definition empty_plan :: "(pystr \<times> json) list" where
  "empty_plan = [(asc ''multi_step'', JBool True), (asc ''steps'', JArr [])]"

definition demo_skill :: skill where
  "demo_skill =
     \<lparr>validate_input = (\<lambda>task context. Inr True),
      skill_execute = (\<lambda>task context. Inr (PDict [(asc ''report'', PStr (asc ''the report''))]))\<rparr>"

definition demo_world :: "pystr \<Rightarrow> world" where
  "demo_world response =
     \<lparr>llm_invoke = (\<lambda>prompt. Inr response),
      json_loads = (\<lambda>s. if s = demo_plan_text then Inr (JObj demo_plan)
                         else if s = empty_plan_text then Inr (JObj empty_plan)
                         else Inl (Exn JSONDecodeError (asc ''Expecting value''))),
      json_dumps = (\<lambda>v. Inr (asc ''dump of the mapping'')),
      repr_of = (\<lambda>v. asc ''None''),
      encode_error_text = (\<lambda>s. asc ''surrogates not allowed''),
      skills = [(asc ''report_generation'', demo_skill)]\<rparr>"

definition demo_agents :: agents where
  "demo_agents =
     \<lparr>agent_query = (\<lambda>q. Inr (asc ''events'')),
      agent_analyze = (\<lambda>q. Inr (asc ''analysis'')),
      agent_generate_report = (\<lambda>q. Inr (asc ''report'')),
      agent_search = (\<lambda>q. Inr (asc ''found'')),
      agent_analyze_image = (\<lambda>image q. Inr (asc ''image'')),
      agent_analyze_multiple_images = (\<lambda>images q. Inr (asc ''images''))\<rparr>"

definition demo_agent_results :: "agent_result list" where
  "demo_agent_results =
     [\<lparr>ar_step = 1, ar_agent = JStr (asc ''query''), ar_task = JStr (asc ''t1''),
       ar_result = asc ''events''\<rparr>,
      \<lparr>ar_step = 2, ar_agent = JStr (asc ''report''), ar_task = JStr (asc ''t2''),
       ar_result = asc ''report''\<rparr>]"

text \<open>
  The same world with a \<open>report_generation\<close> skill whose \<^verbatim>\<open>execute\<close> leaves the interpreter
  (\<^verbatim>\<open>sys.exit()\<close>), agents of which the first does the same, and a plan whose first step names
  the skill U+D800, a lone surrogate, which \<^verbatim>\<open>json.loads\<close> returns for the escape of that code
  point.
\<close>

definition exiting_skill :: skill where
  "exiting_skill =
     \<lparr>validate_input = (\<lambda>task context. Inr True),
      skill_execute = (\<lambda>task context. Inl (Exit SystemExit []))\<rparr>"

definition exiting_world :: world where
  "exiting_world = (demo_world [])\<lparr>skills := [(asc ''report_generation'', exiting_skill)]\<rparr>"




section \<open>The specification's words\<close>

text \<open>
  Quick routing as the specification words it: the first skill, in the declared order of
  the keyword table, one of whose keywords occurs in the request.
\<close>

definition quick_route_spec :: "pystr \<Rightarrow> pystr option" where
  "quick_route_spec request =
     map_option fst
       (find (\<lambda>row. list_ex (\<lambda>kw. str_contains kw request) (snd row)) keywords_map)"


text \<open>
  A well-formed Plan has at least one Step: a Plan marked \<open>multi_step\<close> has a non-empty list
  of steps, any other Plan names its skill (\<open>key\<close> is \<open>skill\<close> for V2 and \<open>agent\<close> for V1).
\<close>

definition well_formed_plan :: "pystr \<Rightarrow> json \<Rightarrow> bool" where
  "well_formed_plan key plan =
     (case plan of
        JObj kvs \<Rightarrow>
          (if json_truthy (case map_of kvs (asc ''multi_step'') of Some v \<Rightarrow> v | None \<Rightarrow> JNull)
           then (case map_of kvs (asc ''steps'') of Some (JArr (step # steps)) \<Rightarrow> True | _ \<Rightarrow> False)
           else map_of kvs key \<noteq> None)
      | _ \<Rightarrow> False)"

text \<open>
  What the amended statements below ask of a run, so that no progress line fails to print
  and nothing outside \<^verbatim>\<open>Exception\<close> is raised. The world renders printable text: \<^verbatim>\<open>str\<close> of
  a value that is not a string, the output and the error messages of \<^verbatim>\<open>json.dumps\<close>, and
  the messages of the exceptions of the skills' \<^verbatim>\<open>validate_input\<close>.
\<close>

definition printable_world :: "world \<Rightarrow> bool" where
  "printable_world w \<longleftrightarrow>
     (\<forall>v. printable (repr_of w v)) \<and>
     (\<forall>v. case json_dumps w v of Inr s \<Rightarrow> printable s | Inl e \<Rightarrow> printable (exn_str e)) \<and>
     (\<forall>name sk task c e. map_of (skills w) name = Some sk \<longrightarrow>
        validate_input sk task c = Inl (Exc e) \<longrightarrow> printable (exn_str e))"

text \<open>The loaded skills raise nothing outside \<^verbatim>\<open>Exception\<close>.\<close>

definition skills_raise_exceptions :: "world \<Rightarrow> bool" where
  "skills_raise_exceptions w \<longleftrightarrow>
     (\<forall>name sk task c k msg. map_of (skills w) name = Some sk \<longrightarrow>
        validate_input sk task c \<noteq> Inl (Exit k msg) \<and>
        skill_execute sk task c \<noteq> Inl (Exit k msg))"







section \<open>Basic facts\<close>

declare str_replace.simps [simp del]

lemma asc_eq_iff [simp]: "asc a = asc b \<longleftrightarrow> a = b"
  by (simp add: asc_def inj_of_char)

lemma asc_Nil_iff [simp]: "asc a = [] \<longleftrightarrow> a = []" "[] = asc a \<longleftrightarrow> a = []"
  by (auto simp: asc_def)

lemma then_do_Inl [simp]: "then_do (Inl e) f = Inl e"
  by (simp add: then_do_def)

lemma then_do_Inr [simp]: "then_do (Inr x) f = f x"
  by (simp add: then_do_def)

lemma then_do_eq_Inr:
  "then_do m f = Inr y \<longleftrightarrow> (\<exists>x. m = Inr x \<and> f x = Inr y)"
  by (cases m) auto


lemma raising_simps [simp]:
  "raising (Inl e) = Inl (Exc e)"
  "raising (Inr x) = Inr x"
  by (simp_all add: raising_def)


lemma raising_eq_Exc [simp]: "raising m = Inl (Exc e) \<longleftrightarrow> m = Inl e"
  by (cases m) auto

lemma raising_no_exit [simp]: "raising m \<noteq> Inl (Exit k msg)"
  by (cases m) auto

lemma except_exception_simps [simp]:
  "except_exception (Inr x) h = Inr x"
  "except_exception (Inl (Exc e)) h = Inr (h e)"
  "except_exception (Inl (Exit k msg)) h = Inl (Exit k msg)"
  by (simp_all add: except_exception_def)


lemma except_exception_eq_Inr:
  "except_exception m h = Inr y \<longleftrightarrow> m = Inr y \<or> (\<exists>e. m = Inl (Exc e) \<and> y = h e)"
  by (auto simp: except_exception_def split: sum.splits raised.splits)

lemma json_str_JStr [simp]: "json_str w (JStr s) = s"
  by (simp add: json_str_def py_str_def)

lemma py_str_PStr [simp]: "py_str w (PStr s) = s"
  by (simp add: py_str_def)

lemma json_get_JObj [simp]:
  "json_get (JObj kvs) key dflt = Inr (case map_of kvs key of Some v \<Rightarrow> v | None \<Rightarrow> dflt)"
  by (simp add: json_get_def)

lemma is_dict_iff: "is_dict j \<longleftrightarrow> (\<exists>kvs. j = JObj kvs)"
  by (cases j) auto

lemma str_contains_simps:
  "str_contains [] ys = True"
  "str_contains (x # xs) [] = False"
  "str_contains (x # xs) (y # ys) = (prefix (x # xs) (y # ys) \<or> str_contains (x # xs) ys)"
  by (simp_all add: str_contains_def sublist_Cons_right)

section \<open>Printing\<close>

lemma printable_simps [simp]:
  "printable []"
  "printable (c # s) \<longleftrightarrow> stdout_encodable c \<and> printable s"
  "printable (s @ t) \<longleftrightarrow> printable s \<and> printable t"
  by (simp_all add: printable_def)

lemma printable_asc [simp]: "printable (asc s)"
proof -
  have "stdout_encodable (of_char c)" for c
  proof -
    have "(of_char c :: nat) mod 256 = of_char c" by (rule of_char_mod_256)
    then have "(of_char c :: nat) < 256"
      by (metis mod_less_divisor zero_less_numeral)
    then show ?thesis unfolding stdout_encodable_def by linarith
  qed
  then show ?thesis by (simp add: printable_def asc_def list_all_iff)
qed

lemma printable_replicate [simp]: "printable (replicate n c) \<longleftrightarrow> n = 0 \<or> stdout_encodable c"
  by (auto simp: printable_def list_all_iff)

lemma printable_take: "printable s \<Longrightarrow> printable (take n s)"
  by (auto simp: printable_def list_all_iff dest: in_set_takeD)

lemma stdout_encodable_numeral [simp]:
  "stdout_encodable (numeral n) \<longleftrightarrow> (numeral n :: nat) < 55296 \<or> 57343 < (numeral n :: nat)"
  by (simp add: stdout_encodable_def)

lemma printable_lines [simp]:
  "printable line_request" "printable line_llm_routing" "printable line_routing_plan"
  "printable v1_line_routing_plan" "printable line_run" "printable line_run_skill"
  "printable line_run_agent" "printable line_multi_step" "printable line_step"
  "printable line_step_result"
  by (simp_all add: line_request_def line_llm_routing_def line_routing_plan_def
      v1_line_routing_plan_def line_run_def line_run_skill_def line_run_agent_def
      line_multi_step_def line_step_def line_step_result_def)

lemma printable_messages [simp]:
  "printable msg_skill_error" "printable msg_skill_not_found" "printable msg_invalid_input_0"
  "printable msg_invalid_input_1" "printable msg_unknown_agent" "printable msg_agent_no_response"
  "printable msg_agent_error" "printable msg_needs_image" "printable msg_no_result"
  by (simp_all add: msg_skill_error_def msg_skill_not_found_def msg_invalid_input_0_def
      msg_invalid_input_1_def msg_unknown_agent_def msg_agent_no_response_def
      msg_agent_error_def msg_needs_image_def msg_no_result_def)

lemma print_text_printable [simp]: "printable s \<Longrightarrow> print_text w s = Inr ()"
  by (simp add: print_text_def)

lemma print_text_unprintable:
  "\<not> printable s \<Longrightarrow>
     print_text w s = Inl (Exc (Exn UnicodeEncodeError (encode_error_text w s)))"
  by (simp add: print_text_def)

lemma print_text_eq_Inr [simp]: "print_text w s = Inr u \<longleftrightarrow> printable s"
  by (simp add: print_text_def)

lemma print_text_no_exit [simp]: "print_text w s \<noteq> Inl (Exit k msg)"
  by (simp add: print_text_def)

lemma print_request_eq_Inr [simp]: "print_request w u = Inr x \<longleftrightarrow> printable u"
  by (auto simp: print_request_def then_do_eq_Inr stdout_encodable_def)

lemma print_request_unprintable:
  "\<not> printable u \<Longrightarrow>
     print_request w u =
       Inl (Exc (Exn UnicodeEncodeError (encode_error_text w (line_request @ u))))"
  by (simp add: print_request_def print_text_unprintable stdout_encodable_def)

section \<open>The Task Resolver\<close>

lemma keyword_scan_find:
  "keyword_scan table request =
     map_option snd (find (\<lambda>row. str_contains (fst row) request) table)"
  by (induction table request rule: keyword_scan.induct) auto

lemma determine_task_total: "\<exists>task. determine_task request (JStr skill) = Inr task"
  by (simp add: determine_task_def str_dict_get_def split: option.splits)

text \<open>
  C5. For every request text and every skill name (a string), the Task Resolver returns
  a task id and does not fail: the task of the first keyword of that skill's declared table,
  in declared order, that occurs in the text, and the skill's default task when no keyword
  occurs (\<open>execute\<close> for a name without a declared default). The result is a function of
  the pair alone, so resolving twice gives the same task.
\<close>

theorem determine_task_resolves:
  "determine_task request (JStr skill) =
     Inr (resolve_spec (declared_table skill) (declared_default skill) request)"
  by (simp add: determine_task_def str_dict_get_def resolve_spec_def declared_table_def
      declared_default_def keyword_scan_find split: option.splits)

section \<open>Running one skill\<close>

lemma execute_skill_wrapper:
  assumes "execute_skill w skill_name task context = Inr r"
  shows "\<exists>b k x. r = PDict [(asc ''success'', PBool b), (asc ''skill'', to_py skill_name),
                            (asc ''task'', PStr task), (k, x)]
                 \<and> (k = asc ''result'' \<or> k = asc ''error'')"
  using assms
  by (auto simp: execute_skill_def except_exception_eq_Inr then_do_eq_Inr
      split: sum.splits option.splits if_splits)

lemma format_result_wrapper:
  assumes "k = asc ''result'' \<or> k = asc ''error''"
  shows "format_result w [(asc ''success'', b), (asc ''skill'', s), (asc ''task'', t), (k, x)]
           skill_name task =
         then_do (json_dumps w (PDict [(asc ''success'', b), (asc ''skill'', s), (asc ''task'', t),
                                        (k, x)]))
           (\<lambda>s. Inr (PStr s))"
  using assms by (auto simp: format_result_def)


lemma supervisor_execute_skill_run:
  assumes "printable (json_str w skill_name)"
  shows "supervisor_execute_skill w skill_name task_description original_input image_data =
           except_exception
             (execute_skill_body w skill_name task_description original_input image_data)
             (\<lambda>e. PStr (json_str w skill_name @ msg_skill_error @ exn_str e))"
  using assms by (simp add: supervisor_execute_skill_def stdout_encodable_def)


lemma unknown_skill_text:
  assumes "map_of (skills w) name = None" and "printable name"
  shows "supervisor_execute_skill w (JStr name) task_description original_input PNone =
           Inr (PStr (name @ msg_skill_error @ msg_skill_not_found @ name))"
proof -
  obtain task where t: "determine_task original_input (JStr name) = Inr task"
    using determine_task_total by blast
  have "execute_skill w (JStr name) task c =
          Inl (Exc (Exn ValueError (msg_skill_not_found @ name)))" for c
    using assms(1) by (simp add: execute_skill_def str_dict_get_def)
  then have "execute_skill_body w (JStr name) task_description original_input PNone =
               Inl (Exc (Exn ValueError (msg_skill_not_found @ name)))"
    by (simp add: execute_skill_body_def t)
  then show ?thesis
    using assms(2) by (simp add: supervisor_execute_skill_run)
qed

section \<open>What a run of a skill prints and returns\<close>






lemma printable_py_str_int:
  assumes "printable_world w"
  shows "printable (py_str w (PInt i))"
  using assms by (simp add: py_str_def printable_world_def)






section \<open>Multi-step execution\<close>











lemma demo_world_printable: "printable_world (demo_world r)" "skills_raise_exceptions (demo_world r)"
  by (auto simp: printable_world_def skills_raise_exceptions_def demo_world_def demo_skill_def)




lemma determine_task_hello:
  "determine_task (asc ''hello'') (JStr (asc ''report_generation'')) =
     Inr (asc ''generate_action_plan'')"
  by (simp add: determine_task_def str_dict_get_def task_mapping_def default_tasks_def
      str_contains_simps asc_def)

lemma skill_context_nonempty [simp]: "skill_context skill_name task td u \<noteq> []"
  by (simp add: skill_context_def Let_def)











section \<open>The Skill Manager's result\<close>

text \<open>
  C10, as stated, fails: an exception of a class outside \<^verbatim>\<open>Exception\<close> that the skill's
  \<^verbatim>\<open>execute\<close> raises is not caught by \<^verbatim>\<open>except Exception\<close> and leaves \<^verbatim>\<open>execute_skill\<close>.
\<close>

theorem skill_exit_propagates:
  "map_of (skills exiting_world) (asc ''report_generation'') = Some exiting_skill \<and>
   validate_input exiting_skill (asc ''generate_summary'')
     (if py_truthy (PDict []) then PDict [] else PDict []) = Inr True \<and>
   skill_execute exiting_skill (asc ''generate_summary'') (PDict []) = Inl (Exit SystemExit []) \<and>
   execute_skill exiting_world (JStr (asc ''report_generation'')) (asc ''generate_summary'')
     (PDict []) = Inl (Exit SystemExit [])"
  by (simp add: execute_skill_def str_dict_get_def exiting_world_def exiting_skill_def)

text \<open>
  C10, amended. For a loaded skill, whatever \<^verbatim>\<open>execute_skill\<close> returns is a mapping with the
  keys \<open>success\<close>, \<open>skill\<close> and \<open>task\<close>. Once validation has passed: when the skill's
  \<^verbatim>\<open>execute\<close> returns, the mapping has \<open>success\<close> true and the skill's output under \<open>result\<close>;
  when it raises an \<^verbatim>\<open>Exception\<close>, the exception is caught and the mapping has \<open>success\<close> false
  and the exception's text under \<open>error\<close>; an exception of a class outside \<^verbatim>\<open>Exception\<close>
  goes on to the caller.
\<close>

theorem execute_skill_mapping:
  assumes "map_of (skills w) name = Some sk"
  shows "(\<forall>d. execute_skill w (JStr name) task context = Inr d \<longrightarrow>
            (\<exists>kvs. d = PDict kvs \<and> map_of kvs (asc ''success'') \<noteq> None \<and>
               map_of kvs (asc ''skill'') = Some (PStr name) \<and>
               map_of kvs (asc ''task'') = Some (PStr task)))
       \<and> (validate_input sk task (if py_truthy context then context else PDict []) = Inr True \<longrightarrow>
            execute_skill w (JStr name) task context =
              (case skill_execute sk task context of
                 Inr result \<Rightarrow>
                   Inr (PDict [(asc ''success'', PBool True), (asc ''skill'', PStr name),
                               (asc ''task'', PStr task), (asc ''result'', result)])
               | Inl (Exc e) \<Rightarrow>
                   Inr (PDict [(asc ''success'', PBool False), (asc ''skill'', PStr name),
                               (asc ''task'', PStr task), (asc ''error'', PStr (exn_str e))])
               | Inl (Exit k msg) \<Rightarrow> Inl (Exit k msg)))"
proof (intro conjI allI impI)
  fix d assume "execute_skill w (JStr name) task context = Inr d"
  from execute_skill_wrapper [OF this] obtain b k x where
    "d = PDict [(asc ''success'', PBool b), (asc ''skill'', to_py (JStr name)),
                (asc ''task'', PStr task), (k, x)]"
    by blast
  then show "\<exists>kvs. d = PDict kvs \<and> map_of kvs (asc ''success'') \<noteq> None \<and>
               map_of kvs (asc ''skill'') = Some (PStr name) \<and>
               map_of kvs (asc ''task'') = Some (PStr task)"
    by simp
next
  assume "validate_input sk task (if py_truthy context then context else PDict []) = Inr True"
  with assms show "execute_skill w (JStr name) task context =
              (case skill_execute sk task context of
                 Inr result \<Rightarrow>
                   Inr (PDict [(asc ''success'', PBool True), (asc ''skill'', PStr name),
                               (asc ''task'', PStr task), (asc ''result'', result)])
               | Inl (Exc e) \<Rightarrow>
                   Inr (PDict [(asc ''success'', PBool False), (asc ''skill'', PStr name),
                               (asc ''task'', PStr task), (asc ''error'', PStr (exn_str e))])
               | Inl (Exit k msg) \<Rightarrow> Inl (Exit k msg))"
    by (simp add: execute_skill_def str_dict_get_def split: sum.splits raised.splits)
qed

theorem execute_skill_mapping_witness:
  "map_of (skills (demo_world [])) (asc ''report_generation'') = Some demo_skill \<and>
   validate_input demo_skill (asc ''generate_summary'')
     (if py_truthy (PDict []) then PDict [] else PDict []) = Inr True \<and>
   execute_skill (demo_world []) (JStr (asc ''report_generation'')) (asc ''generate_summary'')
       (PDict []) =
     Inr (PDict [(asc ''success'', PBool True), (asc ''skill'', PStr (asc ''report_generation'')),
                 (asc ''task'', PStr (asc ''generate_summary'')),
                 (asc ''result'', PDict [(asc ''report'', PStr (asc ''the report''))])])"
proof -
  have h: "map_of (skills (demo_world [])) (asc ''report_generation'') = Some demo_skill"
    by (simp add: demo_world_def)
  have v: "validate_input demo_skill (asc ''generate_summary'')
             (if py_truthy (PDict []) then PDict [] else PDict []) = Inr True"
    by (simp add: demo_skill_def)
  have e: "skill_execute demo_skill (asc ''generate_summary'') (PDict []) =
             Inr (PDict [(asc ''report'', PStr (asc ''the report''))])"
    by (simp add: demo_skill_def)
  from execute_skill_mapping [OF h, of "asc ''generate_summary''" "PDict []"] v
  have "execute_skill (demo_world []) (JStr (asc ''report_generation'')) (asc ''generate_summary'')
       (PDict []) =
     (case skill_execute demo_skill (asc ''generate_summary'') (PDict []) of
        Inr result \<Rightarrow>
          Inr (PDict [(asc ''success'', PBool True), (asc ''skill'', PStr (asc ''report_generation'')),
                      (asc ''task'', PStr (asc ''generate_summary'')), (asc ''result'', result)])
      | Inl (Exc e) \<Rightarrow>
          Inr (PDict [(asc ''success'', PBool False), (asc ''skill'', PStr (asc ''report_generation'')),
                      (asc ''task'', PStr (asc ''generate_summary'')),
                      (asc ''error'', PStr (exn_str e))])
      | Inl (Exit k msg) \<Rightarrow> Inl (Exit k msg))"
    by blast
  then have "execute_skill (demo_world []) (JStr (asc ''report_generation'')) (asc ''generate_summary'')
       (PDict []) =
     Inr (PDict [(asc ''success'', PBool True), (asc ''skill'', PStr (asc ''report_generation'')),
                 (asc ''task'', PStr (asc ''generate_summary'')),
                 (asc ''result'', PDict [(asc ''report'', PStr (asc ''the report''))])])"
    by (simp add: e)
  with h v show ?thesis by blast
qed

lemma single_step_response:
  assumes "map_of (skills w) name = Some sk"
    and "determine_task u (JStr name) = Inr task"
    and "validate_input sk task (PDict (skill_context (JStr name) task td u)) = Inr True"
    and "skill_execute sk task (PDict (skill_context (JStr name) task td u)) = Inr result"
    and "printable name"
  shows "supervisor_execute_skill w (JStr name) td u PNone =
           Inr (case json_dumps w
                   (PDict [(asc ''success'', PBool True), (asc ''skill'', PStr name),
                           (asc ''task'', PStr task), (asc ''result'', result)]) of
              Inr s \<Rightarrow> PStr s
            | Inl e \<Rightarrow> PStr (name @ msg_skill_error @ exn_str e))"
  using assms
  by (simp add: supervisor_execute_skill_run execute_skill_body_def execute_skill_def
      str_dict_get_def format_result_wrapper split: sum.splits)

section \<open>Quick routing\<close>

lemma keyword_table_scan_find:
  "keyword_table_scan table request =
     map_option fst (find (\<lambda>row. list_ex (\<lambda>kw. str_contains kw request) (snd row)) table)"
  by (induction table request rule: keyword_table_scan.induct) auto

lemma keyword_table_scan_key:
  "keyword_table_scan table request = Some skill \<Longrightarrow> skill \<in> fst ` set table"
  by (induction table request rule: keyword_table_scan.induct) (auto split: if_splits)

lemma quick_route_name:
  assumes "quick_route request = Some skill"
  shows "skill \<noteq> []" and "printable skill"
proof -
  from assms have "skill \<in> fst ` set keywords_map"
    unfolding quick_route_def by (rule keyword_table_scan_key)
  then show "skill \<noteq> []" and "printable skill"
    by (auto simp: keywords_map_def)
qed

lemma quick_route_print_simps [simp]:
  "quick_route_print w None = Inr ()"
  "printable skill \<Longrightarrow> quick_route_print w (Some skill) = Inr ()"
  by (simp_all add: quick_route_print_def line_quick_route_def line_keyword_match_def)

lemma quick_route_print_value [simp]: "quick_route_print w (quick_route request) = Inr ()"
  using quick_route_name(2) [of request]
  by (cases "quick_route request") simp_all

lemma quick_route_print_llm [simp]:
  "quick_route_print (w\<lparr>llm_invoke := f\<rparr>) = quick_route_print w"
  by (intro ext) (simp add: quick_route_print_def print_text_def split: option.splits)

lemma py_str_llm [simp]: "py_str (w\<lparr>llm_invoke := f\<rparr>) = py_str w"
  by (rule ext)
     (simp add: py_str_def
       cong: pyval.case_cong sum.case_cong option.case_cong list.case_cong if_cong)

lemma json_str_llm [simp]: "json_str (w\<lparr>llm_invoke := f\<rparr>) = json_str w"
  by (rule ext) (simp add: json_str_def)

lemma print_text_llm [simp]: "print_text (w\<lparr>llm_invoke := f\<rparr>) = print_text w"
  by (rule ext) (simp add: print_text_def)

lemma print_request_llm [simp]: "print_request (w\<lparr>llm_invoke := f\<rparr>) = print_request w"
  by (rule ext) (simp add: print_request_def)

lemma format_dict_llm [simp]: "format_dict (w\<lparr>llm_invoke := f\<rparr>) = format_dict w"
  by (rule ext)
     (simp add: format_dict_def
       cong: pyval.case_cong sum.case_cong option.case_cong list.case_cong if_cong)

lemma format_statistics_llm [simp]: "format_statistics (w\<lparr>llm_invoke := f\<rparr>) = format_statistics w"
  by (rule ext) (simp add: format_statistics_def)

lemma first_result_content_llm [simp]:
  "first_result_content (w\<lparr>llm_invoke := f\<rparr>) = first_result_content w"
  by (rule ext)
     (simp add: first_result_content_def
       cong: pyval.case_cong sum.case_cong option.case_cong list.case_cong if_cong)

lemma format_result_llm [simp]: "format_result (w\<lparr>llm_invoke := f\<rparr>) = format_result w"
  by (intro ext)
     (simp add: format_result_def
       cong: pyval.case_cong sum.case_cong option.case_cong list.case_cong if_cong)

lemma execute_skill_llm [simp]: "execute_skill (w\<lparr>llm_invoke := f\<rparr>) = execute_skill w"
  by (intro ext)
     (simp add: execute_skill_def
       cong: pyval.case_cong sum.case_cong option.case_cong list.case_cong if_cong)

lemma supervisor_execute_skill_llm [simp]:
  "supervisor_execute_skill (w\<lparr>llm_invoke := f\<rparr>) = supervisor_execute_skill w"
  by (intro ext)
     (simp add: supervisor_execute_skill_def execute_skill_body_def
       cong: pyval.case_cong sum.case_cong option.case_cong list.case_cong if_cong)

lemma except_exception_twice [simp]:
  "except_exception (except_exception m h) h' = except_exception m h"
  by (auto simp: except_exception_def split: sum.splits raised.splits)

lemma print_request_value:
  "print_request w u =
     (if printable u then Inr ()
      else Inl (Exc (Exn UnicodeEncodeError (encode_error_text w (line_request @ u)))))"
  by (cases "printable u") (simp_all add: print_request_unprintable)

lemma execute_quick_routed:
  assumes "quick_route request = Some skill"
  shows "snd (execute w request image_data) = []"
    and "printable request \<Longrightarrow>
           fst (execute w request image_data) =
             supervisor_execute_skill w (JStr skill) (JStr request) request image_data"
    and "execute (w\<lparr>llm_invoke := f\<rparr>) request image_data = execute w request image_data"
  using assms quick_route_name [OF assms]
  by (simp_all add: execute_def print_request_value execute_body_def supervisor_execute_skill_run)

text \<open>
  C4. For every request in which a keyword of some skill of the quick-route table occurs,
  the Router names the first such skill in the declared order of the table, and the engine
  runs that one skill on the request without invoking the generation collaborator: no
  prompt is sent, and the outcome does not depend on what the collaborator would answer.
  (The outcome is that of the skill's run whenever the request line can be printed.)
\<close>

theorem quick_route_first_match:
  assumes "list_ex (\<lambda>row. list_ex (\<lambda>kw. str_contains kw request) (snd row)) keywords_map"
  shows "\<exists>skill. quick_route_spec request = Some skill \<and> quick_route request = Some skill \<and>
           snd (execute w request image_data) = [] \<and>
           (printable request \<longrightarrow>
              fst (execute w request image_data) =
                supervisor_execute_skill w (JStr skill) (JStr request) request image_data) \<and>
           (\<forall>f. execute (w\<lparr>llm_invoke := f\<rparr>) request image_data = execute w request image_data)"
proof -
  from assms obtain row where
    "find (\<lambda>row. list_ex (\<lambda>kw. str_contains kw request) (snd row)) keywords_map = Some row"
    by (cases "find (\<lambda>row. list_ex (\<lambda>kw. str_contains kw request) (snd row)) keywords_map")
       (auto simp: find_None_iff list_ex_iff)
  then have spec: "quick_route_spec request = Some (fst row)"
    and code: "quick_route request = Some (fst row)"
    by (simp_all add: quick_route_spec_def quick_route_def keyword_table_scan_find)
  from execute_quick_routed [OF code] spec code show ?thesis
    by simp
qed

theorem quick_route_first_match_witness:
  "list_ex (\<lambda>row. list_ex (\<lambda>kw. str_contains kw [53685, 44228, 32, 48372, 44256, 49436]) (snd row))
     keywords_map \<and>
   quick_route [53685, 44228, 32, 48372, 44256, 49436] = Some (asc ''data_analytics'') \<and>
   snd (execute (demo_world []) [53685, 44228, 32, 48372, 44256, 49436] PNone) = []"
proof -
  have h: "list_ex (\<lambda>row. list_ex (\<lambda>kw. str_contains kw [53685, 44228, 32, 48372, 44256, 49436])
             (snd row)) keywords_map"
    by (simp add: keywords_map_def str_contains_simps)
  have q: "quick_route [53685, 44228, 32, 48372, 44256, 49436] = Some (asc ''data_analytics'')"
    by (simp add: quick_route_def keywords_map_def str_contains_simps)
  from quick_route_first_match [OF h, of "demo_world []" PNone] q
  have "snd (execute (demo_world []) [53685, 44228, 32, 48372, 44256, 49436] PNone) = []"
    by auto
  with h q show ?thesis by blast
qed

section \<open>The planning stage of the Router\<close>


lemma llm_route_cases:
  "llm_route w u = fallback_plan u reason_parse_failed \<or>
   (\<exists>e. llm_route w u = fallback_plan u (reason_error_prefix @ exn_str e)) \<or>
   (\<exists>content m. llm_invoke w (routing_prompt u) = Inr content \<and>
      re_search_braces (clean_response content) = Some m \<and>
      json_loads w m = Inr (llm_route w u))"
  by (auto simp: llm_route_def llm_route_body_def then_do_def split: sum.splits option.splits)

lemma route_cases:
  "route w u = v1_fallback_plan reason_parse_failed \<or>
   (\<exists>e. route w u = v1_fallback_plan (reason_error_prefix @ exn_str e)) \<or>
   (\<exists>content m parsed replaced. llm_invoke w (v1_routing_prompt u) = Inr content \<and>
      re_search_braces (clean_response content) = Some m \<and>
      json_loads w m = Inr parsed \<and>
      replace_search_agent w parsed = Inr replaced \<and>
      replace_search_in_steps w replaced = Inr (route w u))"
  by (auto simp: route_def route_body_def then_do_def split: sum.splits option.splits)




section \<open>Plans without steps\<close>

lemma quick_route_hello: "quick_route (asc ''hello'') = None"
  by (simp add: quick_route_def keywords_map_def str_contains_simps asc_def)

lemma clean_empty_plan_text: "clean_response empty_plan_text = empty_plan_text"
  by (simp add: clean_response_def empty_plan_text_def asc_def str_replace.simps py_strip_def
      is_space_def)

lemma braces_empty_plan_text: "re_search_braces empty_plan_text = Some empty_plan_text"
  by (simp add: empty_plan_text_def asc_def re_search_braces_def)

lemma clean_demo_plan_text: "clean_response demo_plan_text = demo_plan_text"
  by (simp add: clean_response_def demo_plan_text_def asc_def str_replace.simps py_strip_def
      is_space_def)

lemma braces_demo_plan_text: "re_search_braces demo_plan_text = Some demo_plan_text"
  by (simp add: demo_plan_text_def asc_def re_search_braces_def)

lemma plan_texts_differ: "empty_plan_text \<noteq> demo_plan_text"
  by (simp add: empty_plan_text_def demo_plan_text_def asc_def)

lemma llm_route_empty_plan: "llm_route (demo_world empty_plan_text) u = JObj empty_plan"
  by (simp add: llm_route_def llm_route_body_def demo_world_def clean_empty_plan_text
      braces_empty_plan_text plan_texts_differ)

lemma route_empty_plan: "route (demo_world empty_plan_text) u = JObj empty_plan"
  by (simp add: route_def route_body_def demo_world_def clean_empty_plan_text
      braces_empty_plan_text plan_texts_differ replace_search_agent_def
      replace_search_in_steps_def empty_plan_def json_set_def)

text \<open>
  C7, as stated, fails: the Router passes on a parsed Plan that is marked \<open>multi_step\<close> and
  has no steps.
\<close>

theorem router_yields_empty_plan:
  "\<not> well_formed_plan (asc ''skill'') (llm_route (demo_world empty_plan_text) (asc ''hello'')) \<and>
   \<not> well_formed_plan (asc ''agent'') (route (demo_world empty_plan_text) (asc ''hello''))"
  by (simp add: llm_route_empty_plan route_empty_plan well_formed_plan_def empty_plan_def)

lemma no_steps_no_result:
  assumes "map_of kvs (asc ''steps'') = None \<or> map_of kvs (asc ''steps'') = Some (JArr [])"
  shows "execute_multi_step w (JObj kvs) u = Inr (PStr msg_no_result)"
    and "v1_execute_multi_step w ag (JObj kvs) u = (Inr msg_no_result, [])"
  using assms
  by (auto simp: execute_multi_step_def multi_step_results_def v1_execute_multi_step_def
      v1_multi_step_results_def iter_items_def synthesize_results_def)

text \<open>
  C7, amended. Every Plan the Router yields is either the single-step fallback Plan naming
  the default skill (the default agent in V1), which is well-formed, or the JSON value
  parsed from the generation collaborator's response (in V1 after the replacement of the
  search agent), passed on without validation; when such a Plan has no steps or an empty
  list of steps, multi-step execution answers with the fixed no-result text.
\<close>

theorem router_plan_shapes:
  "(llm_route w u = fallback_plan u reason_parse_failed \<or>
    (\<exists>e. llm_route w u = fallback_plan u (reason_error_prefix @ exn_str e)) \<or>
    (\<exists>content m. llm_invoke w (routing_prompt u) = Inr content \<and>
       re_search_braces (clean_response content) = Some m \<and>
       json_loads w m = Inr (llm_route w u))) \<and>
   well_formed_plan (asc ''skill'') (fallback_plan u reason) \<and>
   (route w u = v1_fallback_plan reason_parse_failed \<or>
    (\<exists>e. route w u = v1_fallback_plan (reason_error_prefix @ exn_str e)) \<or>
    (\<exists>content m parsed replaced. llm_invoke w (v1_routing_prompt u) = Inr content \<and>
       re_search_braces (clean_response content) = Some m \<and>
       json_loads w m = Inr parsed \<and>
       replace_search_agent w parsed = Inr replaced \<and>
       replace_search_in_steps w replaced = Inr (route w u))) \<and>
   well_formed_plan (asc ''agent'') (v1_fallback_plan reason) \<and>
   (map_of kvs (asc ''steps'') = None \<or> map_of kvs (asc ''steps'') = Some (JArr []) \<longrightarrow>
      execute_multi_step w (JObj kvs) u = Inr (PStr msg_no_result) \<and>
      v1_execute_multi_step w ag (JObj kvs) u = (Inr msg_no_result, []))"
proof (intro conjI impI)
  show "llm_route w u = fallback_plan u reason_parse_failed \<or>
    (\<exists>e. llm_route w u = fallback_plan u (reason_error_prefix @ exn_str e)) \<or>
    (\<exists>content m. llm_invoke w (routing_prompt u) = Inr content \<and>
       re_search_braces (clean_response content) = Some m \<and>
       json_loads w m = Inr (llm_route w u))"
    by (rule llm_route_cases)
  show "route w u = v1_fallback_plan reason_parse_failed \<or>
    (\<exists>e. route w u = v1_fallback_plan (reason_error_prefix @ exn_str e)) \<or>
    (\<exists>content m parsed replaced. llm_invoke w (v1_routing_prompt u) = Inr content \<and>
       re_search_braces (clean_response content) = Some m \<and>
       json_loads w m = Inr parsed \<and>
       replace_search_agent w parsed = Inr replaced \<and>
       replace_search_in_steps w replaced = Inr (route w u))"
    by (rule route_cases)
  show "well_formed_plan (asc ''skill'') (fallback_plan u reason)"
    by (simp add: well_formed_plan_def fallback_plan_def)
  show "well_formed_plan (asc ''agent'') (v1_fallback_plan reason)"
    by (simp add: well_formed_plan_def v1_fallback_plan_def)
next
  assume a: "map_of kvs (asc ''steps'') = None \<or> map_of kvs (asc ''steps'') = Some (JArr [])"
  from no_steps_no_result [OF a]
  show "execute_multi_step w (JObj kvs) u = Inr (PStr msg_no_result)"
    and "v1_execute_multi_step w ag (JObj kvs) u = (Inr msg_no_result, [])"
    by simp_all
qed

theorem router_plan_shapes_witness:
  "(map_of empty_plan (asc ''steps'') = None \<or> map_of empty_plan (asc ''steps'') = Some (JArr [])) \<and>
   json_loads (demo_world empty_plan_text) empty_plan_text =
     Inr (llm_route (demo_world empty_plan_text) (asc ''hello'')) \<and>
   execute_multi_step (demo_world empty_plan_text) (JObj empty_plan) (asc ''hello'') =
     Inr (PStr msg_no_result) \<and>
   v1_execute_multi_step (demo_world empty_plan_text) demo_agents (JObj empty_plan) (asc ''hello'') =
     (Inr msg_no_result, [])"
proof -
  have h: "map_of empty_plan (asc ''steps'') = None \<or>
           map_of empty_plan (asc ''steps'') = Some (JArr [])"
    by (simp add: empty_plan_def)
  have l: "json_loads (demo_world empty_plan_text) empty_plan_text =
             Inr (llm_route (demo_world empty_plan_text) (asc ''hello''))"
    by (simp add: llm_route_empty_plan) (simp add: demo_world_def plan_texts_differ)
  from router_plan_shapes [of "demo_world empty_plan_text" "asc ''hello''" "[]" empty_plan demo_agents]
    h l
  show ?thesis by blast
qed

section \<open>The response to a single step\<close>

lemma quick_route_report:
  "quick_route [48372, 44256, 49436] = Some (asc ''report_generation'')"
  by (simp add: quick_route_def keywords_map_def str_contains_simps)

lemma determine_task_report:
  "determine_task [48372, 44256, 49436] (JStr (asc ''report_generation'')) =
     Inr (asc ''generate_event_report'')"
  by (simp add: determine_task_def str_dict_get_def task_mapping_def str_contains_simps)

lemma demo_skill_loaded: "map_of (skills (demo_world r)) (asc ''report_generation'') = Some demo_skill"
  by (simp add: demo_world_def)

lemma demo_dump: "json_dumps (demo_world r) x = Inr (asc ''dump of the mapping'')"
  by (simp add: demo_world_def)

lemma printable_report_request: "printable [48372, 44256, 49436]"
  by simp

text \<open>
  C9, at a request that is quick-routed to the one loaded skill, whose \<^verbatim>\<open>execute\<close> returns a
  mapping with a \<open>report\<close>: the response is the JSON dump of the Skill Manager's mapping
  (\<open>success\<close>, \<open>skill\<close>, \<open>task\<close>, \<open>result\<close>), not the report, because \<^verbatim>\<open>_format_result\<close> looks for
  its field names in that outer mapping.
\<close>

theorem single_step_response_is_dump:
  "skill_execute demo_skill (asc ''generate_event_report'')
     (PDict (skill_context (JStr (asc ''report_generation'')) (asc ''generate_event_report'')
               (JStr [48372, 44256, 49436]) [48372, 44256, 49436])) =
     Inr (PDict [(asc ''report'', PStr (asc ''the report''))]) \<and>
   execute (demo_world []) [48372, 44256, 49436] PNone =
     (Inr (PStr (asc ''dump of the mapping'')), []) \<and>
   json_dumps (demo_world [])
     (PDict [(asc ''success'', PBool True), (asc ''skill'', PStr (asc ''report_generation'')),
             (asc ''task'', PStr (asc ''generate_event_report'')),
             (asc ''result'', PDict [(asc ''report'', PStr (asc ''the report''))])]) =
     Inr (asc ''dump of the mapping'')"
proof -
  have v: "validate_input demo_skill task c = Inr True" for task c
    by (simp add: demo_skill_def)
  have e: "skill_execute demo_skill task c = Inr (PDict [(asc ''report'', PStr (asc ''the report''))])"
    for task c
    by (simp add: demo_skill_def)
  have p: "printable (asc ''report_generation'')"
    by simp
  from single_step_response [OF demo_skill_loaded determine_task_report v e p]
  have "supervisor_execute_skill (demo_world []) (JStr (asc ''report_generation''))
          (JStr [48372, 44256, 49436]) [48372, 44256, 49436] PNone =
        Inr (PStr (asc ''dump of the mapping''))"
    by (simp add: demo_dump)
  with execute_quick_routed(1,2) [OF quick_route_report, of "demo_world []" PNone]
    printable_report_request
  have "execute (demo_world []) [48372, 44256, 49436] PNone =
          (Inr (PStr (asc ''dump of the mapping'')), [])"
    by (simp add: prod_eq_iff)
  with e demo_dump show ?thesis by simp
qed

section \<open>Synthesis\<close>

lemma llm_route_demo_plan: "llm_route (demo_world demo_plan_text) u = JObj demo_plan"
  by (simp add: llm_route_def llm_route_body_def demo_world_def clean_demo_plan_text
      braces_demo_plan_text)

lemma demo_second_step:
  "supervisor_execute_skill (demo_world r) (JStr (asc ''report_generation'')) td (asc ''hello'') PNone =
     Inr (PStr (asc ''dump of the mapping''))"
proof -
  have v: "validate_input demo_skill task c = Inr True" for task c
    by (simp add: demo_skill_def)
  have e: "skill_execute demo_skill task c = Inr (PDict [(asc ''report'', PStr (asc ''the report''))])"
    for task c
    by (simp add: demo_skill_def)
  have p: "printable (asc ''report_generation'')"
    by simp
  from single_step_response [OF demo_skill_loaded determine_task_hello v e p]
  show ?thesis by (simp add: demo_dump)
qed

lemma demo_first_step:
  "supervisor_execute_skill (demo_world r) (JStr (asc ''unknown_skill'')) td (asc ''hello'') PNone =
     Inr (PStr (asc ''unknown_skill'' @ msg_skill_error @ msg_skill_not_found @ asc ''unknown_skill''))"
  by (rule unknown_skill_text) (simp_all add: demo_world_def)

lemma demo_results:
  "map_sum id (map sr_step) (multi_step_results (demo_world r) (JObj demo_plan) (asc ''hello'')) =
     Inr [1, 2]"
  "execute_multi_step (demo_world r) (JObj demo_plan) (asc ''hello'') =
     Inr (PStr (asc ''dump of the mapping''))"
  by (simp_all add: execute_multi_step_def multi_step_results_def demo_plan_def demo_steps_def
      iter_items_def step_line_def result_line_def result_preview_def
      printable_py_str_int [OF demo_world_printable(1)] demo_first_step demo_second_step
      stdout_encodable_def with_previous_def printable_take del: take_append)

text \<open>
  C8, as stated, fails for V2: two StepResults are accumulated, the generation collaborator
  would answer every prompt, yet the only prompt sent is the routing prompt and the response
  is the last StepResult's text, not an answer of the collaborator.
\<close>

theorem v2_does_not_synthesize:
  "map_sum id (map sr_step)
     (multi_step_results (demo_world demo_plan_text) (JObj demo_plan) (asc ''hello'')) = Inr [1, 2] \<and>
   llm_route (demo_world demo_plan_text) (asc ''hello'') = JObj demo_plan \<and>
   execute (demo_world demo_plan_text) (asc ''hello'') PNone =
     (Inr (PStr (asc ''dump of the mapping'')), [routing_prompt (asc ''hello'')]) \<and>
   llm_invoke (demo_world demo_plan_text) (routing_prompt (asc ''hello'')) = Inr demo_plan_text \<and>
   asc ''dump of the mapping'' \<noteq> demo_plan_text"
proof -
  have m: "map_of demo_plan (asc ''multi_step'') = Some (JBool True)"
    by (simp add: demo_plan_def)
  have "execute (demo_world demo_plan_text) (asc ''hello'') PNone =
     (Inr (PStr (asc ''dump of the mapping'')), [routing_prompt (asc ''hello'')])"
    by (simp add: execute_def print_request_value execute_body_def quick_route_hello
        llm_route_demo_plan demo_results demo_dump m)
  moreover have "llm_invoke (demo_world demo_plan_text) (routing_prompt (asc ''hello'')) =
      Inr demo_plan_text"
    by (simp add: demo_world_def)
  moreover have "asc ''dump of the mapping'' \<noteq> demo_plan_text"
    by (simp add: demo_plan_text_def asc_def)
  ultimately show ?thesis
    by (simp add: demo_results llm_route_demo_plan)
qed

lemma synthesis_prompt_mentions:
  assumes "r \<in> set results"
  shows "sublist (json_str w (ar_agent r)) (synthesis_prompt w results u)"
    and "sublist (json_str w (ar_task r)) (synthesis_prompt w results u)"
    and "sublist (ar_result r) (synthesis_prompt w results u)"
proof -
  from assms obtain before after where "results = before @ r # after"
    by (auto dest: split_list)
  then have p: "synthesis_prompt w results u =
      (synthesis_prompt_head @ u @ synthesis_prompt_mid @ concat (map (synthesis_entry w) before)) @
      synthesis_entry w r @ (concat (map (synthesis_entry w) after) @ synthesis_prompt_tail)"
    by (simp add: synthesis_prompt_def)
  have e1: "synthesis_entry w r =
      (synthesis_step_0 @ py_str w (PInt (int (ar_step r))) @ synthesis_step_1) @
      json_str w (ar_agent r) @
      (synthesis_step_2 @ json_str w (ar_task r) @ synthesis_step_3 @ ar_result r @ synthesis_step_4)"
    by (simp add: synthesis_entry_def)
  have e2: "synthesis_entry w r =
      (synthesis_step_0 @ py_str w (PInt (int (ar_step r))) @ synthesis_step_1 @
       json_str w (ar_agent r) @ synthesis_step_2) @
      json_str w (ar_task r) @ (synthesis_step_3 @ ar_result r @ synthesis_step_4)"
    by (simp add: synthesis_entry_def)
  have e3: "synthesis_entry w r =
      (synthesis_step_0 @ py_str w (PInt (int (ar_step r))) @ synthesis_step_1 @
       json_str w (ar_agent r) @ synthesis_step_2 @ json_str w (ar_task r) @ synthesis_step_3) @
      ar_result r @ synthesis_step_4"
    by (simp add: synthesis_entry_def)
  have entry: "sublist (synthesis_entry w r) (synthesis_prompt w results u)"
    unfolding p by (rule sublist_appendI)
  have "sublist (json_str w (ar_agent r)) (synthesis_entry w r)"
    by (subst e1) (rule sublist_appendI)
  with entry show "sublist (json_str w (ar_agent r)) (synthesis_prompt w results u)"
    by (rule sublist_order.order_trans [rotated])
  have "sublist (json_str w (ar_task r)) (synthesis_entry w r)"
    by (subst e2) (rule sublist_appendI)
  with entry show "sublist (json_str w (ar_task r)) (synthesis_prompt w results u)"
    by (rule sublist_order.order_trans [rotated])
  have "sublist (ar_result r) (synthesis_entry w r)"
    by (subst e3) (rule sublist_appendI)
  with entry show "sublist (ar_result r) (synthesis_prompt w results u)"
    by (rule sublist_order.order_trans [rotated])
qed

lemma synthesis_prompt_request: "sublist u (synthesis_prompt w results u)"
  unfolding synthesis_prompt_def by (rule sublist_appendI)

lemma execute_prompts: "set (snd (execute w u image_data)) \<subseteq> {routing_prompt u}"
  by (simp add: execute_def print_request_value execute_body_def Let_def)

text \<open>
  C8, amended. In V1, whenever more than one StepResult has been accumulated,
  \<^verbatim>\<open>_synthesize_results\<close> builds one prompt, which holds the original request and every
  step's agent, task and result, sends it to the generation collaborator once, and returns
  the collaborator's answer, or the last StepResult's result when that call fails. V2 has no
  synthesis: its multi-step execution returns the last StepResult's result (the no-result
  text when there is none), and V2 sends no prompt other than the routing prompt.
\<close>

theorem synthesis_only_in_v1:
  "(1 < length results \<longrightarrow>
      synthesize_results w results u =
        (case llm_invoke w (synthesis_prompt w results u) of
           Inr content \<Rightarrow> content
         | Inl e \<Rightarrow> ar_result (last results),
         [synthesis_prompt w results u]) \<and>
      sublist u (synthesis_prompt w results u) \<and>
      (\<forall>r\<in>set results.
         sublist (json_str w (ar_agent r)) (synthesis_prompt w results u) \<and>
         sublist (json_str w (ar_task r)) (synthesis_prompt w results u) \<and>
         sublist (ar_result r) (synthesis_prompt w results u))) \<and>
   (\<forall>rs. multi_step_results w plan u = Inr rs \<longrightarrow>
      execute_multi_step w plan u =
        Inr (if rs = [] then PStr msg_no_result else sr_result (last rs))) \<and>
   set (snd (execute w u image_data)) \<subseteq> {routing_prompt u}"
proof (intro conjI impI allI ballI)
  assume "1 < length results"
  then show "synthesize_results w results u =
        (case llm_invoke w (synthesis_prompt w results u) of
           Inr content \<Rightarrow> content
         | Inl e \<Rightarrow> ar_result (last results),
         [synthesis_prompt w results u])"
    by (auto simp: synthesize_results_def)
next
  show "sublist u (synthesis_prompt w results u)"
    by (rule synthesis_prompt_request)
next
  fix r assume "r \<in> set results"
  then show "sublist (json_str w (ar_agent r)) (synthesis_prompt w results u)"
    and "sublist (json_str w (ar_task r)) (synthesis_prompt w results u)"
    and "sublist (ar_result r) (synthesis_prompt w results u)"
    by (rule synthesis_prompt_mentions)+
next
  fix rs assume "multi_step_results w plan u = Inr rs"
  then show "execute_multi_step w plan u =
        Inr (if rs = [] then PStr msg_no_result else sr_result (last rs))"
    by (simp add: execute_multi_step_def)
next
  show "set (snd (execute w u image_data)) \<subseteq> {routing_prompt u}"
    by (rule execute_prompts)
qed

theorem synthesis_only_in_v1_witness:
  "1 < length demo_agent_results \<and>
   synthesize_results (demo_world (asc ''the answer'')) demo_agent_results (asc ''hello'') =
     (asc ''the answer'',
      [synthesis_prompt (demo_world (asc ''the answer'')) demo_agent_results (asc ''hello'')])"
proof -
  have h: "1 < length demo_agent_results"
    by (simp add: demo_agent_results_def)
  have l: "llm_invoke (demo_world (asc ''the answer'')) p = Inr (asc ''the answer'')" for p
    by (simp add: demo_world_def)
  from synthesis_only_in_v1 [of demo_agent_results "demo_world (asc ''the answer'')" "asc ''hello''"] h
  have "synthesize_results (demo_world (asc ''the answer'')) demo_agent_results (asc ''hello'') =
        (case llm_invoke (demo_world (asc ''the answer''))
                (synthesis_prompt (demo_world (asc ''the answer'')) demo_agent_results (asc ''hello'')) of
           Inr content \<Rightarrow> content
         | Inl e \<Rightarrow> ar_result (last demo_agent_results),
         [synthesis_prompt (demo_world (asc ''the answer'')) demo_agent_results (asc ''hello'')])"
    by blast
  with h show ?thesis by (simp add: l)
qed

section \<open>The entry points\<close>



















end
